theory Spec2Isabelle
  imports Complex_Main "HOL-Library.AList"
begin

section \<open>Python values\<close>

text \<open>
  The analyzer is dynamically typed: what the model replies is parsed by \<^verbatim>\<open>json.loads\<close>
  and flows through the gateway and the orchestrator as whatever JSON value it is. The
  embedding keeps that: a reply is a \<open>json\<close> value, and every operation of the source that
  raises on a value of the wrong type returns the exception as \<open>Inl\<close>.

  A Python \<^verbatim>\<open>str\<close> is a \<open>string\<close> holding its UTF-8 bytes (equality, list membership and
  the substring test agree with those on code points). A Python \<^verbatim>\<open>float\<close> is the real
  number it denotes, or an infinity, or NaN; comparisons on floats are exact, and the
  rounding of \<^verbatim>\<open>1.0 / len(labels)\<close> to a double is not modelled. A \<^verbatim>\<open>dict\<close> is an
  association list with distinct keys in insertion order.
\<close>

datatype pyfloat = Finite real | PosInf | NegInf | NaN

datatype json =
    JNull
  | JBool bool
  | JInt int
  | JFloat pyfloat
  | JStr string
  | JArr "json list"
  | JObj "(string \<times> json) list"

text \<open>
  The exceptions that occur. \<open>VendorError\<close> stands for whatever the vendor SDK raises
  (network, authentication, rate limit, timeout, an empty content list), with its text.
\<close>

datatype py_error =
    JSONDecodeError
  | KeyError
  | TypeError
  | AttributeError
  | IndexError
  | ValueError
  | OverflowError
  | ValidationError
  | VendorError string

definition ebind :: "py_error + 'a \<Rightarrow> ('a \<Rightarrow> py_error + 'b) \<Rightarrow> py_error + 'b" where
  "ebind m f = (case m of Inl e \<Rightarrow> Inl e | Inr x \<Rightarrow> f x)"

text \<open>\<^verbatim>\<open>bool\<close> is a subclass of \<^verbatim>\<open>int\<close>; an \<^verbatim>\<open>int\<close> compares with a float by value.\<close>

fun to_num :: "json \<Rightarrow> pyfloat option" where
  "to_num (JBool b) = Some (Finite (if b then 1 else 0))"
| "to_num (JInt n) = Some (Finite (real_of_int n))"
| "to_num (JFloat x) = Some x"
| "to_num JNull = None"
| "to_num (JStr s) = None"
| "to_num (JArr xs) = None"
| "to_num (JObj kvs) = None"

fun float_gt :: "pyfloat \<Rightarrow> pyfloat \<Rightarrow> bool" where
  "float_gt NaN y = False"
| "float_gt x NaN = False"
| "float_gt (Finite a) (Finite b) = (a > b)"
| "float_gt PosInf PosInf = False"
| "float_gt PosInf y = True"
| "float_gt NegInf y = False"
| "float_gt (Finite a) PosInf = False"
| "float_gt (Finite a) NegInf = True"

text \<open>\<^verbatim>\<open>v > threshold\<close> with a float threshold: TypeError unless \<open>v\<close> is a number.\<close>

definition py_gt :: "json \<Rightarrow> real \<Rightarrow> py_error + bool" where
  "py_gt v t = (case to_num v of None \<Rightarrow> Inl TypeError | Some x \<Rightarrow> Inr (float_gt x (Finite t)))"

text \<open>\<^verbatim>\<open>d.get(key, default)\<close>: only a dict has the method.\<close>

definition py_get :: "json \<Rightarrow> string \<Rightarrow> json \<Rightarrow> py_error + json" where
  "py_get d k dflt =
     (case d of
        JObj kvs \<Rightarrow> Inr (case map_of kvs k of None \<Rightarrow> dflt | Some v \<Rightarrow> v)
      | _ \<Rightarrow> Inl AttributeError)"

fun is_prefix :: "string \<Rightarrow> string \<Rightarrow> bool" where
  "is_prefix [] ys = True"
| "is_prefix (x # xs) [] = False"
| "is_prefix (x # xs) (y # ys) = (x = y \<and> is_prefix xs ys)"

fun is_substring :: "string \<Rightarrow> string \<Rightarrow> bool" where
  "is_substring xs [] = (xs = [])"
| "is_substring xs (y # ys) = (is_prefix xs (y # ys) \<or> is_substring xs ys)"

text \<open>
  \<^verbatim>\<open>label in scores\<close>: key membership on a dict, element membership on a list, the
  substring test on a string, TypeError on anything else.
\<close>

definition py_contains :: "json \<Rightarrow> string \<Rightarrow> py_error + bool" where
  "py_contains c k =
     (case c of
        JObj kvs \<Rightarrow> Inr (k \<in> set (map fst kvs))
      | JArr xs \<Rightarrow> Inr (JStr k \<in> set xs)
      | JStr s \<Rightarrow> Inr (is_substring k s)
      | _ \<Rightarrow> Inl TypeError)"

text \<open>
  \<^verbatim>\<open>scores[label] = v\<close> with a string key: a dict takes it (a new key goes last), every
  other value raises TypeError.
\<close>

definition py_setitem :: "json \<Rightarrow> string \<Rightarrow> json \<Rightarrow> py_error + json" where
  "py_setitem c k v =
     (case c of
        JObj kvs \<Rightarrow> Inr (JObj (AList.update k v kvs))
      | _ \<Rightarrow> Inl TypeError)"

text \<open>\<^verbatim>\<open>sep.join(xs)\<close>\<close>

fun join :: "string \<Rightarrow> string list \<Rightarrow> string" where
  "join sep [] = []"
| "join sep [x] = x"
| "join sep (x # y # ys) = x @ sep @ join sep (y # ys)"

section \<open>Settings (config.py)\<close>

text \<open>The German labels that are not ASCII, as UTF-8.\<close>

definition Meinungsaeusserung :: string where
  "Meinungsaeusserung = ''Meinungs'' @ [CHR 0xC3, CHR 0xA4, CHR 0xC3, CHR 0x9F] @ ''erung''"

definition Persoenliche_Mitteilung :: string where
  "Persoenliche_Mitteilung = ''Pers'' @ [CHR 0xC3, CHR 0xB6] @ ''nliche Mitteilung''"

definition Ueberzeugend :: string where
  "Ueberzeugend = [CHR 0xC3, CHR 0x9C] @ ''berzeugend''"

record Settings =
  ANTHROPIC_API_KEY :: string
  ENABLE_VERACITY_CHECK :: bool
  ENABLE_NUANCE_ANALYSIS :: bool
  EN_POST_TYPES :: "string list"
  DE_POST_TYPES :: "string list"
  EN_POLITICAL_LABELS :: "string list"
  DE_POLITICAL_LABELS :: "string list"
  EN_INTENT_LABELS :: "string list"
  DE_INTENT_LABELS :: "string list"
  INTENT_CONFIDENCE_THRESHOLD :: real
  SPAM_CONFIDENCE_THRESHOLD :: real

text \<open>The defaults of the class \<^verbatim>\<open>Settings\<close>.\<close>

definition settings :: Settings where
  "settings =
     \<lparr> ANTHROPIC_API_KEY = '''',
       ENABLE_VERACITY_CHECK = True,
       ENABLE_NUANCE_ANALYSIS = True,
       EN_POST_TYPES =
         [''Factual Claim'', ''Opinion'', ''Question'', ''Personal Update'', ''Promotion''],
       DE_POST_TYPES =
         [''Faktische Behauptung'', Meinungsaeusserung, ''Frage'',
          Persoenliche_Mitteilung, ''Werbung / Spam''],
       EN_POLITICAL_LABELS =
         [''Left'', ''Center-Left'', ''Center'', ''Center-Right'', ''Right'', ''Neutral''],
       DE_POLITICAL_LABELS =
         [''Politisch Links'', ''Politisch Mitte-Links'', ''Politisch Mitte'',
          ''Politisch Mitte-Rechts'', ''Politisch Rechts'', ''Politisch Neutral''],
       EN_INTENT_LABELS =
         [''Informative'', ''Persuasive'', ''Satirical'',
          ''Provocative'', ''Commercial'', ''Entertaining''],
       DE_INTENT_LABELS =
         [''Informativ'', Ueberzeugend, ''Satirisch'',
          ''Provozierend'', ''Kommerziell'', ''Unterhaltend''],
       INTENT_CONFIDENCE_THRESHOLD = 3 / 10,
       SPAM_CONFIDENCE_THRESHOLD = 7 / 10 \<rparr>"

text \<open>
  The settings are read from the environment: the key and the feature flags vary between
  deployments. \<open>configured key v n\<close> is the default configuration with these three set.
\<close>

definition configured :: "string \<Rightarrow> bool \<Rightarrow> bool \<Rightarrow> Settings" where
  "configured key v n =
     settings \<lparr> ANTHROPIC_API_KEY := key, ENABLE_VERACITY_CHECK := v,
                ENABLE_NUANCE_ANALYSIS := n \<rparr>"

section \<open>The outside world\<close>

text \<open>
  What the program does not contain is a parameter of the model:
  \<^item> \<open>client k prompt\<close> is what the \<open>k\<close>-th call of \<^verbatim>\<open>client.messages.create\<close> (counted
    from 0 over the whole run) followed by \<^verbatim>\<open>response.content[0].text\<close> gives for this
    prompt: the reply text, or the exception raised;
  \<^item> \<open>loads\<close> is \<^verbatim>\<open>json.loads\<close> of the standard library;
  \<^item> \<open>exn_text\<close> is \<^verbatim>\<open>str(e)\<close>;
  \<^item> \<open>utcnow\<close> is the reading of the clock, \<^verbatim>\<open>datetime.now(timezone.utc)\<close>.
  The state that a run changes is the number of calls made and the sleeps taken between
  retries, in seconds.
\<close>

record datetime =
  year :: nat
  month :: nat
  day :: nat
  hour :: nat
  minute :: nat
  second :: nat
  microsecond :: nat

record env =
  client :: "nat \<Rightarrow> string \<Rightarrow> py_error + string"
  loads :: "string \<Rightarrow> py_error + json"
  exn_text :: "py_error \<Rightarrow> string"
  utcnow :: datetime

record world =
  calls :: nat
  slept :: "nat list"

section \<open>Model gateway (services/claude\_service.py)\<close>

definition enabled :: "Settings \<Rightarrow> bool" where
  "enabled s = (ANTHROPIC_API_KEY s \<noteq> [])"

definition get_post_type_labels :: "Settings \<Rightarrow> string \<Rightarrow> string list" where
  "get_post_type_labels s lang = (if lang = ''de'' then DE_POST_TYPES s else EN_POST_TYPES s)"

definition get_political_labels :: "Settings \<Rightarrow> string \<Rightarrow> string list" where
  "get_political_labels s lang =
     (if lang = ''de'' then DE_POLITICAL_LABELS s else EN_POLITICAL_LABELS s)"

definition get_intent_labels :: "Settings \<Rightarrow> string \<Rightarrow> string list" where
  "get_intent_labels s lang =
     (if lang = ''de'' then DE_INTENT_LABELS s else EN_INTENT_LABELS s)"

text \<open>
  \<^verbatim>\<open>{label: 1.0 / len(labels) for label in labels}\<close>: a label that occurs twice keeps its
  first place.
\<close>

definition uniform_scores :: "string list \<Rightarrow> json" where
  "uniform_scores labels =
     JObj (foldl (\<lambda>d label. AList.update label (JFloat (Finite (1 / real (length labels)))) d)
             [] labels)"

text \<open>\<^verbatim>\<open>labels[0]\<close>\<close>

definition first_label :: "string list \<Rightarrow> py_error + json" where
  "first_label labels = (case labels of [] \<Rightarrow> Inl IndexError | l # _ \<Rightarrow> Inr (JStr l))"

definition get_default_classification ::
  "Settings \<Rightarrow> string \<Rightarrow> py_error + json \<times> json \<times> json" where
  "get_default_classification s lang =
     (let labels = get_post_type_labels s lang;
          scores = uniform_scores labels
      in ebind (first_label labels)
           (\<lambda>l0. Inr (l0, JFloat (Finite (1 / real (length labels))), scores)))"

definition get_default_political_analysis :: "Settings \<Rightarrow> string \<Rightarrow> json" where
  "get_default_political_analysis s lang = uniform_scores (get_political_labels s lang)"

definition get_default_intent_analysis :: "Settings \<Rightarrow> string \<Rightarrow> json" where
  "get_default_intent_analysis s lang = uniform_scores (get_intent_labels s lang)"

definition get_default_veracity_analysis :: "string \<Rightarrow> string \<Rightarrow> json \<times> json \<times> json" where
  "get_default_veracity_analysis claim lang =
     (JStr ''Unverifiable'', JStr ''Analysis not available'', JStr ''Default method used'')"

subsection \<open>Prompts\<close>

text \<open>
  Each prompt is an f-string: a line break, then the lines below, each ended by a line
  break. \<open>quoted\<close> puts a text between double quotes.
\<close>

definition prompt_lines :: "string list \<Rightarrow> string" where
  "prompt_lines ls = [CHR 0x0A] @ concat (map (\<lambda>l. l @ [CHR 0x0A]) ls)"

definition quoted :: "string \<Rightarrow> string" where
  "quoted t = [CHR 0x22] @ t @ [CHR 0x22]"

definition scores_format :: "string \<Rightarrow> string list" where
  "scores_format cat =
     [''    '' @ quoted ''scores'' @ '': {'',
      ''        '' @ quoted (cat @ ''1'') @ '': 0.95,'',
      ''        '' @ quoted (cat @ ''2'') @ '': 0.03,'',
      ''        '' @ quoted (cat @ ''3'') @ '': 0.02'',
      ''    }'']"

definition build_classification_prompt :: "string \<Rightarrow> string list \<Rightarrow> string \<Rightarrow> string" where
  "build_classification_prompt text labels lang =
     (if lang = ''de'' then
        prompt_lines
          ([''Klassifiziere den folgenden Text in eine der Kategorien: '' @ join '', '' labels,
            [],
            ''Text: '' @ quoted text,
            [],
            ''Antworte nur mit einem JSON-Objekt im folgenden Format:'',
            ''{'',
            ''    '' @ quoted ''primary_label'' @ '': ''
              @ quoted (''gew'' @ [CHR 0xC3, CHR 0xA4] @ ''hlte_kategorie'') @ '','',
            ''    '' @ quoted ''confidence'' @ '': 0.95,'']
           @ scores_format ''kategorie'' @ [''}''])
      else
        prompt_lines
          ([''Classify the following text into one of these categories: '' @ join '', '' labels,
            [],
            ''Text: '' @ quoted text,
            [],
            ''Respond only with a JSON object in the following format:'',
            ''{'',
            ''    '' @ quoted ''primary_label'' @ '': '' @ quoted ''chosen_category'' @ '','',
            ''    '' @ quoted ''confidence'' @ '': 0.95,'']
           @ scores_format ''category'' @ [''}'']))"

definition build_political_analysis_prompt ::
  "string \<Rightarrow> string list \<Rightarrow> string \<Rightarrow> string" where
  "build_political_analysis_prompt text labels lang =
     (if lang = ''de'' then
        prompt_lines
          ([''Analysiere die politische Tendenz des folgenden Textes: '' @ join '', '' labels,
            [],
            ''Text: '' @ quoted text,
            [],
            ''Antworte nur mit einem JSON-Objekt im folgenden Format:'',
            ''{'']
           @ scores_format ''kategorie'' @ [''}''])
      else
        prompt_lines
          ([''Analyze the political tendency of the following text: '' @ join '', '' labels,
            [],
            ''Text: '' @ quoted text,
            [],
            ''Respond only with a JSON object in the following format:'',
            ''{'']
           @ scores_format ''category'' @ [''}'']))"

definition build_intent_analysis_prompt :: "string \<Rightarrow> string list \<Rightarrow> string \<Rightarrow> string" where
  "build_intent_analysis_prompt text labels lang =
     (if lang = ''de'' then
        prompt_lines
          ([''Analysiere die Absichten im folgenden Text: '' @ join '', '' labels,
            [],
            ''Text: '' @ quoted text,
            [],
            ''Antworte nur mit einem JSON-Objekt im folgenden Format:'',
            ''{'']
           @ scores_format ''kategorie'' @ [''}''])
      else
        prompt_lines
          ([''Analyze the intents in the following text: '' @ join '', '' labels,
            [],
            ''Text: '' @ quoted text,
            [],
            ''Respond only with a JSON object in the following format:'',
            ''{'']
           @ scores_format ''category'' @ [''}'']))"

definition build_veracity_prompt :: "string \<Rightarrow> string \<Rightarrow> string" where
  "build_veracity_prompt claim lang =
     (if lang = ''de'' then
        prompt_lines
          [''Du bist ein neutraler, unparteiischer deutscher Faktenchecker. ''
             @ ''Bewerte die folgende Behauptung basierend auf deinem Wissen.'',
           [],
           ''Behauptung: '' @ quoted claim,
           [],
           ''Antworte nur mit einem JSON-Objekt im folgenden Format:'',
           ''{'',
           ''    '' @ quoted ''status'' @ '': ''
             @ quoted ''Factually Correct|Untruth|Misleading|Unverifiable'' @ '','',
           ''    '' @ quoted ''justification'' @ '': ''
             @ quoted (''Kurze Begr'' @ [CHR 0xC3, CHR 0xBC] @ ''ndung'') @ '','',
           ''    '' @ quoted ''verification_method'' @ '': '' @ quoted ''AI-basierte Analyse'',
           ''}'']
      else
        prompt_lines
          [''You are a neutral, impartial fact-checker. ''
             @ ''Evaluate the following claim based on your knowledge.'',
           [],
           ''Claim: '' @ quoted claim,
           [],
           ''Respond only with a JSON object in the following format:'',
           ''{'',
           ''    '' @ quoted ''status'' @ '': ''
             @ quoted ''Factually Correct|Untruth|Misleading|Unverifiable'' @ '','',
           ''    '' @ quoted ''justification'' @ '': '' @ quoted ''Brief justification'' @ '','',
           ''    '' @ quoted ''verification_method'' @ '': '' @ quoted ''AI-based analysis'',
           ''}''])"

subsection \<open>The call, with retries\<close>

text \<open>
  The loop of \<^verbatim>\<open>_make_api_call\<close> over \<^verbatim>\<open>range(max_retries)\<close>: a reply ends it; a failed
  attempt that is not the last sleeps \<open>2 ^ attempt\<close> seconds and goes on; the last failed
  attempt raises what it caught. A loop that runs out returns \<^verbatim>\<open>None\<close>.
\<close>

fun api_attempts ::
  "env \<Rightarrow> string \<Rightarrow> nat \<Rightarrow> nat list \<Rightarrow> world \<Rightarrow> (py_error + string option) \<times> world" where
  "api_attempts ev prompt max_retries [] w = (Inr None, w)"
| "api_attempts ev prompt max_retries (attempt # rest) w =
     (case client ev (calls w) prompt of
        Inr reply \<Rightarrow> (Inr (Some reply), w \<lparr> calls := Suc (calls w) \<rparr>)
      | Inl e \<Rightarrow>
          (if attempt < max_retries - 1
           then api_attempts ev prompt max_retries rest
                  (w \<lparr> calls := Suc (calls w), slept := slept w @ [2 ^ attempt] \<rparr>)
           else (Inl e, w \<lparr> calls := Suc (calls w) \<rparr>)))"

definition make_api_call :: "env \<Rightarrow> string \<Rightarrow> world \<Rightarrow> (py_error + string option) \<times> world" where
  "make_api_call ev prompt w = api_attempts ev prompt 3 [0..<3] w"

subsection \<open>Parsing the reply\<close>

text \<open>\<^verbatim>\<open>json.loads(response_text)\<close>; \<^verbatim>\<open>None\<close> is not a text.\<close>

definition json_loads :: "env \<Rightarrow> string option \<Rightarrow> py_error + json" where
  "json_loads ev response = (case response of None \<Rightarrow> Inl TypeError | Some t \<Rightarrow> loads ev t)"

text \<open>
  \<^verbatim>\<open>data.get(key, default)\<close> where the default is an expression that may raise: the method
  is looked up first (AttributeError on anything but a dict), then the default is
  evaluated.
\<close>

definition get_or :: "json \<Rightarrow> string \<Rightarrow> py_error + json \<Rightarrow> py_error + json" where
  "get_or d k dflt =
     (case d of
        JObj kvs \<Rightarrow> ebind dflt (\<lambda>dv. py_get d k dv)
      | _ \<Rightarrow> Inl AttributeError)"

text \<open>\<^verbatim>\<open>for label in labels: if label not in scores: scores[label] = 0.0\<close>\<close>

fun fill_missing :: "string list \<Rightarrow> json \<Rightarrow> py_error + json" where
  "fill_missing [] sc = Inr sc"
| "fill_missing (label # labels) sc =
     ebind (py_contains sc label)
       (\<lambda>present.
          if present then fill_missing labels sc
          else ebind (py_setitem sc label (JFloat (Finite 0))) (fill_missing labels))"

text \<open>The handler \<^verbatim>\<open>except (json.JSONDecodeError, KeyError)\<close> around a body.\<close>

definition except_decode :: "py_error + 'a \<Rightarrow> (py_error + 'a) \<Rightarrow> py_error + 'a" where
  "except_decode body handler =
     (case body of
        Inr r \<Rightarrow> Inr r
      | Inl e \<Rightarrow> (if e = JSONDecodeError \<or> e = KeyError then handler else Inl e))"

definition parse_classification_response ::
  "env \<Rightarrow> string option \<Rightarrow> string list \<Rightarrow> py_error + json \<times> json \<times> json" where
  "parse_classification_response ev response_text labels =
     except_decode
       (ebind (json_loads ev response_text) (\<lambda>data.
        ebind (get_or data ''primary_label'' (first_label labels)) (\<lambda>primary_label.
        ebind (py_get data ''confidence'' (JFloat (Finite (1 / 2)))) (\<lambda>confidence.
        ebind (py_get data ''scores'' (JObj [])) (\<lambda>scores.
        ebind (fill_missing labels scores) (\<lambda>scores'.
        Inr (primary_label, confidence, scores')))))))
       (ebind (first_label labels) (\<lambda>l0.
        Inr (l0, JFloat (Finite (1 / 2)), uniform_scores labels)))"

definition parse_political_response :: "env \<Rightarrow> string option \<Rightarrow> string list \<Rightarrow> py_error + json" where
  "parse_political_response ev response_text labels =
     except_decode
       (ebind (json_loads ev response_text) (\<lambda>data.
        ebind (py_get data ''scores'' (JObj [])) (\<lambda>scores.
        fill_missing labels scores)))
       (Inr (uniform_scores labels))"

definition parse_intent_response :: "env \<Rightarrow> string option \<Rightarrow> string list \<Rightarrow> py_error + json" where
  "parse_intent_response ev response_text labels =
     except_decode
       (ebind (json_loads ev response_text) (\<lambda>data.
        ebind (py_get data ''scores'' (JObj [])) (\<lambda>scores.
        fill_missing labels scores)))
       (Inr (uniform_scores labels))"

definition parse_veracity_response :: "env \<Rightarrow> string option \<Rightarrow> py_error + json \<times> json \<times> json" where
  "parse_veracity_response ev response_text =
     except_decode
       (ebind (json_loads ev response_text) (\<lambda>data.
        ebind (py_get data ''status'' (JStr ''Unverifiable'')) (\<lambda>status.
        ebind (py_get data ''justification'' (JStr ''No analysis available'')) (\<lambda>justification.
        ebind (py_get data ''verification_method'' (JStr ''No method specified''))
          (\<lambda>verification_method.
        Inr (status, justification, verification_method))))))
       (Inr (JStr ''Unverifiable'', JStr ''Error in analysis'', JStr ''No method available''))"

subsection \<open>The four operations\<close>

text \<open>
  Each operation returns its default at once when the service is not enabled. Otherwise
  it builds the prompt, calls, parses, and on any exception of these three steps
  (\<^verbatim>\<open>except Exception\<close>) returns the same default.
\<close>

definition classify_post_type ::
  "Settings \<Rightarrow> env \<Rightarrow> string \<Rightarrow> string \<Rightarrow> world \<Rightarrow> (py_error + json \<times> json \<times> json) \<times> world" where
  "classify_post_type s ev text lang w =
     (if \<not> enabled s then (get_default_classification s lang, w)
      else
        let labels = get_post_type_labels s lang;
            prompt = build_classification_prompt text labels lang;
            (response, w') = make_api_call ev prompt w
        in case ebind response (\<lambda>r. parse_classification_response ev r labels) of
             Inr result \<Rightarrow> (Inr result, w')
           | Inl e \<Rightarrow> (get_default_classification s lang, w'))"

definition analyze_political_tendency ::
  "Settings \<Rightarrow> env \<Rightarrow> string \<Rightarrow> string \<Rightarrow> world \<Rightarrow> (py_error + json) \<times> world" where
  "analyze_political_tendency s ev text lang w =
     (if \<not> enabled s then (Inr (get_default_political_analysis s lang), w)
      else
        let labels = get_political_labels s lang;
            prompt = build_political_analysis_prompt text labels lang;
            (response, w') = make_api_call ev prompt w
        in case ebind response (\<lambda>r. parse_political_response ev r labels) of
             Inr result \<Rightarrow> (Inr result, w')
           | Inl e \<Rightarrow> (Inr (get_default_political_analysis s lang), w'))"

definition analyze_intents ::
  "Settings \<Rightarrow> env \<Rightarrow> string \<Rightarrow> string \<Rightarrow> world \<Rightarrow> (py_error + json) \<times> world" where
  "analyze_intents s ev text lang w =
     (if \<not> enabled s then (Inr (get_default_intent_analysis s lang), w)
      else
        let labels = get_intent_labels s lang;
            prompt = build_intent_analysis_prompt text labels lang;
            (response, w') = make_api_call ev prompt w
        in case ebind response (\<lambda>r. parse_intent_response ev r labels) of
             Inr result \<Rightarrow> (Inr result, w')
           | Inl e \<Rightarrow> (Inr (get_default_intent_analysis s lang), w'))"

definition analyze_veracity ::
  "Settings \<Rightarrow> env \<Rightarrow> string \<Rightarrow> string \<Rightarrow> world \<Rightarrow> (py_error + json \<times> json \<times> json) \<times> world" where
  "analyze_veracity s ev claim lang w =
     (if \<not> enabled s then (Inr (get_default_veracity_analysis claim lang), w)
      else
        let prompt = build_veracity_prompt claim lang;
            (response, w') = make_api_call ev prompt w
        in case ebind response (\<lambda>r. parse_veracity_response ev r) of
             Inr result \<Rightarrow> (Inr result, w')
           | Inl e \<Rightarrow> (Inr (get_default_veracity_analysis claim lang), w'))"

section \<open>Result types (models/api\_models.py)\<close>

text \<open>
  Modelled from the spec: \<^verbatim>\<open>models/api_models.py\<close> is not among the sources. The four
  enumerations have the members that the orchestrator names; the records have the fields
  that it passes as keyword arguments, with the types of the spec's data model.
\<close>

datatype PostType = FACTUAL_CLAIM | OPINION | QUESTION | PERSONAL_UPDATE | PROMOTION

datatype VeracityStatus = FACTUALLY_CORRECT | UNTRUTH | MISLEADING | UNVERIFIABLE

datatype PoliticalTendency = LEFT | CENTER_LEFT | CENTER | CENTER_RIGHT | RIGHT | NEUTRAL

datatype Intent = INFORMATIVE | PERSUASIVE | SATIRICAL | PROVOCATIVE | COMMERCIAL | ENTERTAINING

record PostAnalysis =
  post_type :: PostType
  is_spam :: bool

record VeracityAnalysis =
  status :: VeracityStatus
  justification :: string
  verification_method :: string
  sources :: "string list"

record PoliticalTendencyAnalysis =
  primary :: PoliticalTendency
  scores :: "(string \<times> json) list"

record NuanceAnalysis =
  political_tendency :: PoliticalTendencyAnalysis
  detected_intents :: "Intent list"

record AnalysisResult =
  post_id :: string
  analysis_timestamp :: string
  language :: string
  post_analysis :: PostAnalysis
  veracity_analysis :: "VeracityAnalysis option"
  nuance_analysis :: "NuanceAnalysis option"
  processing_error :: "string option"

text \<open>
  Modelled from the spec: the constructor of \<^verbatim>\<open>VeracityAnalysis\<close> is not among the sources.
  The spec types \<open>justification\<close> and \<open>verification_method\<close> as strings; the gateway hands
  over whatever the reply held, and a value that is not a string is refused.
\<close>

definition new_VeracityAnalysis ::
  "VeracityStatus \<Rightarrow> json \<Rightarrow> json \<Rightarrow> py_error + VeracityAnalysis" where
  "new_VeracityAnalysis st j m =
     (case j of
        JStr jt \<Rightarrow>
          (case m of
             JStr mt \<Rightarrow>
               Inr \<lparr> status = st, justification = jt, verification_method = mt, sources = [] \<rparr>
           | _ \<Rightarrow> Inl ValidationError)
      | _ \<Rightarrow> Inl ValidationError)"

section \<open>Analysis orchestrator (services/evaluation\_service.py)\<close>

definition SPAM_LABELS :: "string list" where
  "SPAM_LABELS = [''Werbung / Spam'', ''Promotion'']"

text \<open>
  \<^verbatim>\<open>mapping.get(label, default)\<close> on a dict literal with string keys: a list or a dict as
  key is unhashable (TypeError); any other value that is not a string is no key of it.
\<close>

definition mapping_get :: "(string \<times> 'a) list \<Rightarrow> json \<Rightarrow> 'a \<Rightarrow> py_error + 'a" where
  "mapping_get mapping label dflt =
     (case label of
        JStr l \<Rightarrow> Inr (case map_of mapping l of None \<Rightarrow> dflt | Some v \<Rightarrow> v)
      | JArr xs \<Rightarrow> Inl TypeError
      | JObj kvs \<Rightarrow> Inl TypeError
      | _ \<Rightarrow> Inr dflt)"

definition map_veracity_status :: "json \<Rightarrow> py_error + VeracityStatus" where
  "map_veracity_status st =
     mapping_get
       [(''Factually Correct'', FACTUALLY_CORRECT),
        (''Untruth'', UNTRUTH),
        (''Misleading'', MISLEADING),
        (''Unverifiable'', UNVERIFIABLE)]
       st UNVERIFIABLE"

definition map_to_post_type :: "json \<Rightarrow> string \<Rightarrow> py_error + PostType" where
  "map_to_post_type label lang =
     mapping_get
       [(''Factual Claim'', FACTUAL_CLAIM),
        (''Faktische Behauptung'', FACTUAL_CLAIM),
        (''Opinion'', OPINION),
        (Meinungsaeusserung, OPINION),
        (''Question'', QUESTION),
        (''Frage'', QUESTION),
        (''Personal Update'', PERSONAL_UPDATE),
        (Persoenliche_Mitteilung, PERSONAL_UPDATE),
        (''Promotion'', PROMOTION),
        (''Werbung / Spam'', PROMOTION)]
       label OPINION"

definition map_to_political_tendency :: "json \<Rightarrow> string \<Rightarrow> py_error + PoliticalTendency" where
  "map_to_political_tendency label lang =
     mapping_get
       [(''Left'', LEFT),
        (''Politisch Links'', LEFT),
        (''Center-Left'', CENTER_LEFT),
        (''Politisch Mitte-Links'', CENTER_LEFT),
        (''Center'', CENTER),
        (''Politisch Mitte'', CENTER),
        (''Center-Right'', CENTER_RIGHT),
        (''Politisch Mitte-Rechts'', CENTER_RIGHT),
        (''Right'', RIGHT),
        (''Politisch Rechts'', RIGHT),
        (''Neutral'', NEUTRAL),
        (''Politisch Neutral'', NEUTRAL)]
       label NEUTRAL"

definition map_to_intent :: "json \<Rightarrow> string \<Rightarrow> py_error + Intent" where
  "map_to_intent label lang =
     mapping_get
       [(''Informative'', INFORMATIVE),
        (''Informativ'', INFORMATIVE),
        (''Persuasive'', PERSUASIVE),
        (Ueberzeugend, PERSUASIVE),
        (''Satirical'', SATIRICAL),
        (''Satirisch'', SATIRICAL),
        (''Provocative'', PROVOCATIVE),
        (''Provozierend'', PROVOCATIVE),
        (''Commercial'', COMMERCIAL),
        (''Kommerziell'', COMMERCIAL),
        (''Entertaining'', ENTERTAINING),
        (''Unterhaltend'', ENTERTAINING)]
       label INFORMATIVE"

subsection \<open>Triage\<close>

definition detect_spam :: "Settings \<Rightarrow> json \<Rightarrow> json \<Rightarrow> py_error + bool" where
  "detect_spam s primary_label confidence =
     (let is_promotion_label = (primary_label \<in> set (map JStr SPAM_LABELS))
      in ebind (py_gt confidence (SPAM_CONFIDENCE_THRESHOLD s))
           (\<lambda>high_promotion_score. Inr (is_promotion_label \<and> high_promotion_score)))"

text \<open>
  The log line of the triage formats the confidence with \<^verbatim>\<open>:.2f\<close>. A float formats; an
  \<^verbatim>\<open>int\<close> is converted to a float first, which overflows from \<open>2 ^ 1024 - 2 ^ 970\<close> on; a
  string has no such format code, and the other values take no format string.
\<close>

definition format_2f :: "json \<Rightarrow> py_error + unit" where
  "format_2f v =
     (case v of
        JFloat x \<Rightarrow> Inr ()
      | JInt n \<Rightarrow> (if \<bar>n\<bar> \<ge> 2 ^ 1024 - 2 ^ 970 then Inl OverflowError else Inr ())
      | JBool b \<Rightarrow> Inr ()
      | JStr t \<Rightarrow> Inl ValueError
      | _ \<Rightarrow> Inl TypeError)"

definition run_triage ::
  "Settings \<Rightarrow> env \<Rightarrow> string \<Rightarrow> string \<Rightarrow> world \<Rightarrow> (py_error + PostType \<times> bool) \<times> world" where
  "run_triage s ev text lang w =
     (let (r, w') = classify_post_type s ev text lang w
      in (ebind r (\<lambda>(primary_label, confidence, sc).
          ebind (detect_spam s primary_label confidence) (\<lambda>spam.
          ebind (map_to_post_type primary_label lang) (\<lambda>ptype.
          ebind (format_2f confidence) (\<lambda>_.
          Inr (ptype, spam))))), w'))"

subsection \<open>Veracity\<close>

definition should_perform_veracity_check :: "Settings \<Rightarrow> PostType \<Rightarrow> bool \<Rightarrow> bool" where
  "should_perform_veracity_check s ptype spam =
     (ptype = FACTUAL_CLAIM \<and> \<not> spam \<and> ENABLE_VERACITY_CHECK s)"

definition get_veracity_analysis ::
  "Settings \<Rightarrow> env \<Rightarrow> PostType \<Rightarrow> bool \<Rightarrow> string \<Rightarrow> string \<Rightarrow> world
     \<Rightarrow> (py_error + VeracityAnalysis option) \<times> world" where
  "get_veracity_analysis s ev ptype spam post_text lang w =
     (if \<not> should_perform_veracity_check s ptype spam then (Inr None, w)
      else
        let (r, w') = analyze_veracity s ev post_text lang w
        in (ebind r (\<lambda>(st, j, m).
            ebind (map_veracity_status st) (\<lambda>vs.
            ebind (new_VeracityAnalysis vs j m) (\<lambda>va.
            Inr (Some va)))), w'))"

subsection \<open>Nuance\<close>

text \<open>
  \<^verbatim>\<open>max(scores, key=scores.get)\<close>: the first key whose value no later value exceeds;
  ValueError on an empty dict. \<^verbatim>\<open>round(v, 4)\<close> rounds half to even at the fourth decimal
  and leaves an \<^verbatim>\<open>int\<close> an \<^verbatim>\<open>int\<close>. When some value is not a number, a comparison in
  \<^verbatim>\<open>max\<close> or else \<^verbatim>\<open>round\<close> raises TypeError, and nothing happens in between: the model
  raises it at \<^verbatim>\<open>max\<close>.
\<close>

fun numeric_items :: "(string \<times> json) list \<Rightarrow> (string \<times> pyfloat) list option" where
  "numeric_items [] = Some []"
| "numeric_items ((k, v) # kvs) =
     (case to_num v of
        None \<Rightarrow> None
      | Some x \<Rightarrow> (case numeric_items kvs of None \<Rightarrow> None | Some r \<Rightarrow> Some ((k, x) # r)))"

fun max_from :: "string \<times> pyfloat \<Rightarrow> (string \<times> pyfloat) list \<Rightarrow> string" where
  "max_from (bk, bv) [] = bk"
| "max_from (bk, bv) ((k, x) # kxs) =
     (if float_gt x bv then max_from (k, x) kxs else max_from (bk, bv) kxs)"

definition max_key :: "(string \<times> json) list \<Rightarrow> py_error + string" where
  "max_key kvs =
     (if kvs = [] then Inl ValueError
      else case numeric_items kvs of
             None \<Rightarrow> Inl TypeError
           | Some [] \<Rightarrow> Inl ValueError
           | Some (kx # kxs) \<Rightarrow> Inr (max_from kx kxs))"

definition round_half_even :: "real \<Rightarrow> int" where
  "round_half_even r =
     (let f = \<lfloor>r\<rfloor>; d = r - of_int f
      in if d < 1 / 2 then f else if d > 1 / 2 then f + 1 else if even f then f else f + 1)"

definition round4 :: "json \<Rightarrow> py_error + json" where
  "round4 v =
     (case v of
        JFloat x \<Rightarrow>
          Inr (JFloat (case x of
                         Finite r \<Rightarrow> Finite (of_int (round_half_even (r * 10000)) / 10000)
                       | _ \<Rightarrow> x))
      | JInt n \<Rightarrow> Inr (JInt n)
      | JBool b \<Rightarrow> Inr (JInt (if b then 1 else 0))
      | _ \<Rightarrow> Inl TypeError)"

fun round_items :: "(string \<times> json) list \<Rightarrow> py_error + (string \<times> json) list" where
  "round_items [] = Inr []"
| "round_items ((k, v) # kvs) =
     ebind (round4 v) (\<lambda>v'. ebind (round_items kvs) (\<lambda>r. Inr ((k, v') # r)))"

text \<open>\<^verbatim>\<open>scores.get\<close> and \<^verbatim>\<open>scores.items()\<close> exist on a dict only.\<close>

definition build_political_analysis :: "json \<Rightarrow> string \<Rightarrow> py_error + PoliticalTendencyAnalysis" where
  "build_political_analysis sc lang =
     (case sc of
        JObj kvs \<Rightarrow>
          ebind (max_key kvs) (\<lambda>primary_label.
          ebind (map_to_political_tendency (JStr primary_label) lang) (\<lambda>p.
          ebind (round_items kvs) (\<lambda>rounded.
          Inr \<lparr> primary = p, scores = rounded \<rparr>)))
      | _ \<Rightarrow> Inl AttributeError)"

text \<open>
  The first comprehension of \<^verbatim>\<open>_build_intent_list\<close>: the keys whose score exceeds the
  threshold, in the order of the dict; a score that is not a number raises TypeError.
\<close>

fun above_threshold :: "real \<Rightarrow> (string \<times> json) list \<Rightarrow> py_error + string list" where
  "above_threshold t [] = Inr []"
| "above_threshold t ((intent, score) # kvs) =
     ebind (py_gt score t) (\<lambda>b.
     ebind (above_threshold t kvs) (\<lambda>r.
     Inr (if b then intent # r else r)))"

fun map_intents :: "string list \<Rightarrow> string \<Rightarrow> py_error + Intent list" where
  "map_intents [] lang = Inr []"
| "map_intents (intent # r) lang =
     ebind (map_to_intent (JStr intent) lang) (\<lambda>i.
     ebind (map_intents r lang) (\<lambda>is. Inr (i # is)))"

definition build_intent_list :: "Settings \<Rightarrow> json \<Rightarrow> string \<Rightarrow> py_error + Intent list" where
  "build_intent_list s sc lang =
     (case sc of
        JObj kvs \<Rightarrow>
          ebind (above_threshold (INTENT_CONFIDENCE_THRESHOLD s) kvs) (\<lambda>detected.
          map_intents detected lang)
      | _ \<Rightarrow> Inl AttributeError)"

definition get_nuance_analysis ::
  "Settings \<Rightarrow> env \<Rightarrow> bool \<Rightarrow> string \<Rightarrow> string \<Rightarrow> world
     \<Rightarrow> (py_error + NuanceAnalysis option) \<times> world" where
  "get_nuance_analysis s ev spam post_text lang w =
     (if spam \<or> \<not> ENABLE_NUANCE_ANALYSIS s then (Inr None, w)
      else
        (let (pr, w1) = analyze_political_tendency s ev post_text lang w
         in (case pr of
               Inl e \<Rightarrow> (Inl e, w1)
             | Inr political_scores \<Rightarrow>
                 (let (ir, w2) = analyze_intents s ev post_text lang w1
                  in (ebind ir (\<lambda>intent_scores.
                      ebind (build_political_analysis political_scores lang) (\<lambda>pa.
                      ebind (build_intent_list s intent_scores lang) (\<lambda>di.
                      Inr (Some \<lparr> political_tendency = pa, detected_intents = di \<rparr>)))),
                      w2)))))"

subsection \<open>The result\<close>

text \<open>
  \<^verbatim>\<open>datetime.now(timezone.utc).isoformat()\<close>: the date and the time with zero-padded
  fields, the microseconds when they are not zero, and the offset of the time zone, which
  for UTC is \<^verbatim>\<open>+00:00\<close>. (A \<^verbatim>\<open>datetime\<close> has a year of at most 9999.)
\<close>

definition digit :: "nat \<Rightarrow> char" where
  "digit n = ''0123456789'' ! (n mod 10)"

definition digits2 :: "nat \<Rightarrow> string" where
  "digits2 n = [digit (n div 10), digit n]"

definition digits4 :: "nat \<Rightarrow> string" where
  "digits4 n = [digit (n div 1000), digit (n div 100), digit (n div 10), digit n]"

definition digits6 :: "nat \<Rightarrow> string" where
  "digits6 n =
     [digit (n div 100000), digit (n div 10000), digit (n div 1000),
      digit (n div 100), digit (n div 10), digit n]"

definition isoformat :: "datetime \<Rightarrow> string" where
  "isoformat d =
     digits4 (year d) @ ''-'' @ digits2 (month d) @ ''-'' @ digits2 (day d) @ ''T''
     @ digits2 (hour d) @ '':'' @ digits2 (minute d) @ '':'' @ digits2 (second d)
     @ (if microsecond d = 0 then [] else ''.'' @ digits6 (microsecond d))
     @ ''+00:00''"

definition build_analysis_response ::
  "env \<Rightarrow> string \<Rightarrow> string \<Rightarrow> PostType \<Rightarrow> bool \<Rightarrow> VeracityAnalysis option
     \<Rightarrow> NuanceAnalysis option \<Rightarrow> string option \<Rightarrow> AnalysisResult" where
  "build_analysis_response ev pid lang ptype spam va na perr =
     \<lparr> post_id = pid,
       analysis_timestamp = isoformat (utcnow ev) @ ''Z'',
       language = lang,
       post_analysis = \<lparr> post_type = ptype, is_spam = spam \<rparr>,
       veracity_analysis = va,
       nuance_analysis = na,
       processing_error = perr \<rparr>"

text \<open>The dict that the handler of \<^verbatim>\<open>perform_full_analysis\<close> returns.\<close>

definition failure_response :: "env \<Rightarrow> string \<Rightarrow> string \<Rightarrow> py_error \<Rightarrow> AnalysisResult" where
  "failure_response ev pid lang e =
     \<lparr> post_id = pid,
       analysis_timestamp = isoformat (utcnow ev) @ ''Z'',
       language = lang,
       post_analysis = \<lparr> post_type = OPINION, is_spam = False \<rparr>,
       veracity_analysis = None,
       nuance_analysis =
         Some \<lparr> political_tendency =
                  \<lparr> primary = NEUTRAL, scores = [(''Neutral'', JFloat (Finite 1))] \<rparr>,
                detected_intents = [INFORMATIVE] \<rparr>,
       processing_error = Some (''Analysis failed: '' @ exn_text ev e) \<rparr>"

definition perform_full_analysis ::
  "Settings \<Rightarrow> env \<Rightarrow> string \<Rightarrow> string \<Rightarrow> string \<Rightarrow> world \<Rightarrow> AnalysisResult \<times> world" where
  "perform_full_analysis s ev pid post_text lang w =
     (let (tr, w1) = run_triage s ev post_text lang w
      in (case tr of
            Inl e \<Rightarrow> (failure_response ev pid lang e, w1)
          | Inr (ptype, spam) \<Rightarrow>
              (let (vr, w2) = get_veracity_analysis s ev ptype spam post_text lang w1
               in (case vr of
                     Inl e \<Rightarrow> (failure_response ev pid lang e, w2)
                   | Inr va \<Rightarrow>
                       (let (nr, w3) = get_nuance_analysis s ev spam post_text lang w2
                        in (case nr of
                              Inl e \<Rightarrow> (failure_response ev pid lang e, w3)
                            | Inr na \<Rightarrow>
                                (build_analysis_response ev pid lang ptype spam va na None,
                                 w3)))))))"

section \<open>Sample runs\<close>

text \<open>
  Concrete inputs for the examples below: a fresh state, a reading of the clock, replies
  of the model, and two environments, one whose every call fails and one whose every call
  gives the same reply. \<open>sample_loads\<close> is \<^verbatim>\<open>json.loads\<close> on the replies that these
  environments give (the three replies below and \<^verbatim>\<open>{}\<close>; the other reply used,
  \<^verbatim>\<open>not json\<close>, is no JSON text), and \<open>sample_text\<close> is \<^verbatim>\<open>str(e)\<close> for the two exceptions
  that the examples raise.
\<close>

definition world0 :: world where
  "world0 = \<lparr> calls = 0, slept = [] \<rparr>"

definition noon :: datetime where
  "noon = \<lparr> year = 2024, month = 1, day = 15, hour = 10, minute = 30, second = 0,
            microsecond = 0 \<rparr>"

definition sample_text :: "py_error \<Rightarrow> string" where
  "sample_text e =
     (case e of
        VendorError m \<Rightarrow> m
      | TypeError \<Rightarrow>
          [CHR 0x27] @ ''>'' @ [CHR 0x27] @ '' not supported between instances of ''
          @ [CHR 0x27] @ ''str'' @ [CHR 0x27] @ '' and '' @ [CHR 0x27] @ ''float'' @ [CHR 0x27]
      | _ \<Rightarrow> [])"

definition reply_german_spam :: string where
  "reply_german_spam =
     ''{'' @ quoted ''primary_label'' @ '': '' @ quoted ''Werbung / Spam'' @ '', ''
     @ quoted ''confidence'' @ '': 0.75}''"

definition reply_bad_confidence :: string where
  "reply_bad_confidence = ''{'' @ quoted ''confidence'' @ '': '' @ quoted ''high'' @ ''}''"

definition reply_two_informative :: string where
  "reply_two_informative =
     ''{'' @ quoted ''scores'' @ '': {'' @ quoted ''Informative'' @ '': 0.5, ''
     @ quoted ''Informativ'' @ '': 0.5}}''"

definition sample_loads :: "string \<Rightarrow> py_error + json" where
  "sample_loads t =
     (if t = ''{}'' then Inr (JObj [])
      else if t = reply_german_spam then
        Inr (JObj [(''primary_label'', JStr ''Werbung / Spam''),
                   (''confidence'', JFloat (Finite (3 / 4)))])
      else if t = reply_bad_confidence then Inr (JObj [(''confidence'', JStr ''high'')])
      else if t = reply_two_informative then
        Inr (JObj [(''scores'',
                    JObj [(''Informative'', JFloat (Finite (1 / 2))),
                          (''Informativ'', JFloat (Finite (1 / 2)))])])
      else Inl JSONDecodeError)"

definition replying :: "string \<Rightarrow> env" where
  "replying t =
     \<lparr> client = (\<lambda>k prompt. Inr t), loads = sample_loads, exn_text = sample_text,
       utcnow = noon \<rparr>"

definition outage :: env where
  "outage =
     \<lparr> client = (\<lambda>k prompt. Inl (VendorError ''Connection error.'')), loads = sample_loads,
       exn_text = sample_text, utcnow = noon \<rparr>"

text \<open>A dict of intent scores: two above the threshold, one of them an \<^verbatim>\<open>int\<close>, one at it.\<close>

definition sample_scores :: "(string \<times> json) list" where
  "sample_scores =
     [(''Informative'', JFloat (Finite (1 / 2))), (''Satirical'', JInt 1),
      (''Commercial'', JFloat (Finite (3 / 10)))]"

section \<open>The gateway when no reply arrives\<close>

text \<open>
  When every call fails, each of the three attempts fails, the loop sleeps one and then
  two seconds, and the last exception leaves \<open>make_api_call\<close>. The operation around it
  answers with its default, as it does when the service is not enabled.
\<close>

lemma make_api_call_all_fail:
  assumes "\<And>k p. isl (client ev k p)"
  shows "\<exists>e. make_api_call ev p w = (Inl e, w \<lparr> calls := calls w + 3, slept := slept w @ [1, 2] \<rparr>)"
proof -
  obtain e0 where e0: "client ev (calls w) p = Inl e0"
    using assms[of "calls w" p] by (cases "client ev (calls w) p") auto
  obtain e1 where e1: "client ev (Suc (calls w)) p = Inl e1"
    using assms[of "Suc (calls w)" p] by (cases "client ev (Suc (calls w)) p") auto
  obtain e2 where e2: "client ev (Suc (Suc (calls w))) p = Inl e2"
    using assms[of "Suc (Suc (calls w))" p] by (cases "client ev (Suc (Suc (calls w))) p") auto
  have "make_api_call ev p w = (Inl e2, w \<lparr> calls := calls w + 3, slept := slept w @ [1, 2] \<rparr>)"
    by (simp add: make_api_call_def upt_rec e0 e1 e2)
  then show ?thesis by blast
qed

lemma classify_down:
  assumes "\<not> enabled s \<or> (\<forall>k p. isl (client ev k p))"
  shows "fst (classify_post_type s ev tx lang w) = get_default_classification s lang"
proof (cases "enabled s")
  case False
  then show ?thesis by (simp add: classify_post_type_def)
next
  case True
  with assms have "\<And>k p. isl (client ev k p)" by simp
  from make_api_call_all_fail[OF this] obtain e where
    "make_api_call ev (build_classification_prompt tx (get_post_type_labels s lang) lang) w
       = (Inl e, w \<lparr> calls := calls w + 3, slept := slept w @ [1, 2] \<rparr>)" by blast
  with True show ?thesis by (simp add: classify_post_type_def ebind_def)
qed

lemma political_down:
  assumes "\<not> enabled s \<or> (\<forall>k p. isl (client ev k p))"
  shows "fst (analyze_political_tendency s ev tx lang w) = Inr (get_default_political_analysis s lang)"
proof (cases "enabled s")
  case False
  then show ?thesis by (simp add: analyze_political_tendency_def)
next
  case True
  with assms have "\<And>k p. isl (client ev k p)" by simp
  from make_api_call_all_fail[OF this] obtain e where
    "make_api_call ev (build_political_analysis_prompt tx (get_political_labels s lang) lang) w
       = (Inl e, w \<lparr> calls := calls w + 3, slept := slept w @ [1, 2] \<rparr>)" by blast
  with True show ?thesis by (simp add: analyze_political_tendency_def ebind_def)
qed

lemma intents_down:
  assumes "\<not> enabled s \<or> (\<forall>k p. isl (client ev k p))"
  shows "fst (analyze_intents s ev tx lang w) = Inr (get_default_intent_analysis s lang)"
proof (cases "enabled s")
  case False
  then show ?thesis by (simp add: analyze_intents_def)
next
  case True
  with assms have "\<And>k p. isl (client ev k p)" by simp
  from make_api_call_all_fail[OF this] obtain e where
    "make_api_call ev (build_intent_analysis_prompt tx (get_intent_labels s lang) lang) w
       = (Inl e, w \<lparr> calls := calls w + 3, slept := slept w @ [1, 2] \<rparr>)" by blast
  with True show ?thesis by (simp add: analyze_intents_def ebind_def)
qed

lemma veracity_down:
  assumes "\<not> enabled s \<or> (\<forall>k p. isl (client ev k p))"
  shows "fst (analyze_veracity s ev tx lang w) = Inr (get_default_veracity_analysis tx lang)"
proof (cases "enabled s")
  case False
  then show ?thesis by (simp add: analyze_veracity_def)
next
  case True
  with assms have "\<And>k p. isl (client ev k p)" by simp
  from make_api_call_all_fail[OF this] obtain e where
    "make_api_call ev (build_veracity_prompt tx lang) w
       = (Inl e, w \<lparr> calls := calls w + 3, slept := slept w @ [1, 2] \<rparr>)" by blast
  with True show ?thesis by (simp add: analyze_veracity_def ebind_def)
qed

lemma run_triage_fst:
  "fst (run_triage s ev tx lang w) =
     ebind (fst (classify_post_type s ev tx lang w)) (\<lambda>(primary_label, confidence, sc).
       ebind (detect_spam s primary_label confidence) (\<lambda>spam.
       ebind (map_to_post_type primary_label lang) (\<lambda>ptype.
       ebind (format_2f confidence) (\<lambda>_. Inr (ptype, spam)))))"
  by (cases "classify_post_type s ev tx lang w") (simp add: run_triage_def)

lemma default_classification_configured:
  "get_default_classification (configured key v n) lang =
     Inr (JStr (if lang = ''de'' then ''Faktische Behauptung'' else ''Factual Claim''),
          JFloat (Finite (1 / 5)),
          uniform_scores (get_post_type_labels (configured key v n) lang))"
  by (simp add: get_default_classification_def configured_def settings_def
        get_post_type_labels_def first_label_def ebind_def)

lemma triage_down:
  assumes "\<not> enabled (configured key v n) \<or> (\<forall>k p. isl (client ev k p))"
  shows "fst (run_triage (configured key v n) ev tx lang w) = Inr (FACTUAL_CLAIM, False)"
  unfolding run_triage_fst classify_down[OF assms] default_classification_configured
  by (simp add: ebind_def detect_spam_def py_gt_def
          SPAM_LABELS_def map_to_post_type_def mapping_get_def format_2f_def configured_def settings_def)

lemma get_veracity_fst:
  "fst (get_veracity_analysis s ev ptype spam tx lang w) =
     (if \<not> should_perform_veracity_check s ptype spam then Inr None
      else ebind (fst (analyze_veracity s ev tx lang w)) (\<lambda>(st, j, m).
            ebind (map_veracity_status st) (\<lambda>vs.
            ebind (new_VeracityAnalysis vs j m) (\<lambda>va. Inr (Some va)))))"
  by (cases "analyze_veracity s ev tx lang w") (simp add: get_veracity_analysis_def)

lemma veracity_step_down:
  assumes "\<not> enabled (configured key v n) \<or> (\<forall>k p. isl (client ev k p))"
  shows "fst (get_veracity_analysis (configured key v n) ev FACTUAL_CLAIM False tx lang w) =
     Inr (if v then Some \<lparr> status = UNVERIFIABLE, justification = ''Analysis not available'',
                            verification_method = ''Default method used'', sources = [] \<rparr>
          else None)"
  unfolding get_veracity_fst veracity_down[OF assms]
  by (simp add: should_perform_veracity_check_def configured_def get_default_veracity_analysis_def
        ebind_def map_veracity_status_def mapping_get_def new_VeracityAnalysis_def)

lemma get_nuance_fst:
  "fst (get_nuance_analysis s ev spam tx lang w) =
     (if spam \<or> \<not> ENABLE_NUANCE_ANALYSIS s then Inr None
      else ebind (fst (analyze_political_tendency s ev tx lang w)) (\<lambda>political_scores.
           ebind (fst (analyze_intents s ev tx lang (snd (analyze_political_tendency s ev tx lang w))))
             (\<lambda>intent_scores.
           ebind (build_political_analysis political_scores lang) (\<lambda>pa.
           ebind (build_intent_list s intent_scores lang) (\<lambda>di.
           Inr (Some \<lparr> political_tendency = pa, detected_intents = di \<rparr>))))))"
  by (cases "analyze_political_tendency s ev tx lang w")
     (auto simp add: get_nuance_analysis_def ebind_def split: sum.splits prod.splits)


lemma uniform_scores_distinct:
  assumes "distinct labels"
  shows "uniform_scores labels = JObj (map (\<lambda>l. (l, JFloat (Finite (1 / real (length labels))))) labels)"
proof -
  have "\<And>d. distinct (map fst d @ ls) \<Longrightarrow>
      foldl (\<lambda>d label. AList.update label c d) d ls = d @ map (\<lambda>l. (l, c)) ls" for ls :: "string list" and c :: json
  proof (induction ls)
    case Nil
    then show ?case by simp
  next
    case (Cons a ls)
    have "a \<notin> fst ` set d" using Cons.prems by auto
    then have upd: "AList.update a c d = d @ [(a, c)]"
      by (induction d) auto
    have "distinct (map fst (d @ [(a, c)]) @ ls)" using Cons.prems by auto
    from Cons.IH[OF this] show ?case by (simp add: upd)
  qed
  from this[of "[]" labels] assms show ?thesis by (simp add: uniform_scores_def)
qed

lemma default_political_configured:
  "get_default_political_analysis (configured key v n) lang =
     JObj (map (\<lambda>l. (l, JFloat (Finite (1 / 6)))) (get_political_labels (configured key v n) lang))"
  unfolding get_default_political_analysis_def
  by (subst uniform_scores_distinct)
     (simp_all add: get_political_labels_def configured_def settings_def)

lemma default_intent_configured:
  "get_default_intent_analysis (configured key v n) lang =
     JObj (map (\<lambda>l. (l, JFloat (Finite (1 / 6)))) (get_intent_labels (configured key v n) lang))"
  unfolding get_default_intent_analysis_def
  by (subst uniform_scores_distinct)
     (simp_all add: get_intent_labels_def configured_def settings_def Ueberzeugend_def)

lemma round4_sixth: "round4 (JFloat (Finite (1 / 6))) = Inr (JFloat (Finite (1667 / 10000)))"
proof -
  have "\<lfloor>(10000 :: real) / 6\<rfloor> = 1666" by linarith
  then show ?thesis by (simp add: round4_def round_half_even_def)
qed

lemma default_political_built:
  "build_political_analysis (get_default_political_analysis (configured key v n) lang) lang =
     Inr \<lparr> primary = LEFT,
           scores = map (\<lambda>l. (l, JFloat (Finite (1667 / 10000))))
                      (get_political_labels (configured key v n) lang) \<rparr>"
  unfolding default_political_configured
  by (simp add: build_political_analysis_def get_political_labels_def configured_def settings_def
        max_key_def ebind_def map_to_political_tendency_def mapping_get_def round4_sixth)

lemma default_intents_built:
  "build_intent_list (configured key v n) (get_default_intent_analysis (configured key v n) lang) lang =
     Inr []"
  unfolding default_intent_configured
  by (simp add: build_intent_list_def get_intent_labels_def configured_def settings_def
        ebind_def py_gt_def)

lemma nuance_step_down:
  assumes "\<not> enabled (configured key v n) \<or> (\<forall>k p. isl (client ev k p))"
  shows "fst (get_nuance_analysis (configured key v n) ev False tx lang w) =
     Inr (if n then Some \<lparr> political_tendency =
                             \<lparr> primary = LEFT,
                               scores = map (\<lambda>l. (l, JFloat (Finite (1667 / 10000))))
                                          (get_political_labels (configured key v n) lang) \<rparr>,
                           detected_intents = [] \<rparr>
          else None)"
  unfolding get_nuance_fst political_down[OF assms] intents_down[OF assms]
  by (simp add: ebind_def default_political_built default_intents_built)
     (simp add: configured_def)

lemma perform_fst:
  "fst (perform_full_analysis s ev pid tx lang w) =
     (case fst (run_triage s ev tx lang w) of
        Inl e \<Rightarrow> failure_response ev pid lang e
      | Inr (ptype, spam) \<Rightarrow>
          (case fst (get_veracity_analysis s ev ptype spam tx lang (snd (run_triage s ev tx lang w))) of
             Inl e \<Rightarrow> failure_response ev pid lang e
           | Inr va \<Rightarrow>
               (case fst (get_nuance_analysis s ev spam tx lang
                            (snd (get_veracity_analysis s ev ptype spam tx lang
                                    (snd (run_triage s ev tx lang w))))) of
                  Inl e \<Rightarrow> failure_response ev pid lang e
                | Inr na \<Rightarrow> build_analysis_response ev pid lang ptype spam va na None)))"
  by (simp add: perform_full_analysis_def split: prod.splits sum.splits)

lemma pipeline_down:
  assumes "\<not> enabled (configured key v n) \<or> (\<forall>k p. isl (client ev k p))"
  shows "fst (perform_full_analysis (configured key v n) ev pid tx lang w) =
     \<lparr> post_id = pid,
       analysis_timestamp = isoformat (utcnow ev) @ ''Z'',
       language = lang,
       post_analysis = \<lparr> post_type = FACTUAL_CLAIM, is_spam = False \<rparr>,
       veracity_analysis =
         (if v then Some \<lparr> status = UNVERIFIABLE, justification = ''Analysis not available'',
                            verification_method = ''Default method used'', sources = [] \<rparr>
          else None),
       nuance_analysis =
         (if n then Some \<lparr> political_tendency =
                             \<lparr> primary = LEFT,
                               scores = map (\<lambda>l. (l, JFloat (Finite (1667 / 10000))))
                                          (get_political_labels (configured key v n) lang) \<rparr>,
                           detected_intents = [] \<rparr>
          else None),
       processing_error = None \<rparr>"
  unfolding perform_fst triage_down[OF assms]
  by (simp add: veracity_step_down[OF assms] nuance_step_down[OF assms] build_analysis_response_def)

lemma failure_or_success:
  "(\<exists>e. fst (perform_full_analysis s ev pid tx lang w) = failure_response ev pid lang e) \<or>
   (\<exists>ptype spam va na.
      fst (run_triage s ev tx lang w) = Inr (ptype, spam) \<and>
      fst (get_veracity_analysis s ev ptype spam tx lang (snd (run_triage s ev tx lang w))) = Inr va \<and>
      fst (get_nuance_analysis s ev spam tx lang
             (snd (get_veracity_analysis s ev ptype spam tx lang
                     (snd (run_triage s ev tx lang w))))) = Inr na \<and>
      fst (perform_full_analysis s ev pid tx lang w) =
        build_analysis_response ev pid lang ptype spam va na None)"
proof (cases "fst (run_triage s ev tx lang w)")
  case (Inl e)
  then show ?thesis by (auto simp add: perform_fst)
next
  case (Inr ps)
  obtain ptype spam where ps: "ps = (ptype, spam)" by (cases ps)
  let ?w1 = "snd (run_triage s ev tx lang w)"
  show ?thesis
  proof (cases "fst (get_veracity_analysis s ev ptype spam tx lang ?w1)")
    case (Inl e)
    with Inr ps show ?thesis by (auto simp add: perform_fst)
  next
    case va: (Inr va)
    let ?w2 = "snd (get_veracity_analysis s ev ptype spam tx lang ?w1)"
    show ?thesis
    proof (cases "fst (get_nuance_analysis s ev spam tx lang ?w2)")
      case (Inl e)
      with Inr ps va show ?thesis by (auto simp add: perform_fst)
    next
      case na: (Inr na)
      with Inr ps va show ?thesis by (simp add: perform_fst)
    qed
  qed
qed

lemma veracity_none_iff:
  "fst (get_veracity_analysis s ev ptype spam tx lang w) = Inr va \<Longrightarrow>
     (va \<noteq> None) = should_perform_veracity_check s ptype spam"
  unfolding get_veracity_fst
  by (auto simp: ebind_def split: if_splits sum.splits prod.splits)

lemma nuance_none_iff:
  "fst (get_nuance_analysis s ev spam tx lang w) = Inr na \<Longrightarrow>
     (na \<noteq> None) = (\<not> spam \<and> ENABLE_NUANCE_ANALYSIS s)"
  unfolding get_nuance_fst
  by (auto simp: ebind_def split: if_splits sum.splits prod.splits)

section \<open>Veracity gate\<close>

text \<open>
  C5: the veracity check runs if and only if the post type is FactualClaim, the post is
  not spam and the veracity flag is set. When the gate is closed the step returns no
  analysis, raises nothing and leaves the state as it was; when it is open the state is
  the one \<open>analyze_veracity\<close> leaves. In the result of \<open>perform_full_analysis\<close>, on
  either path, a veracity analysis is present exactly when the reported post type is
  FactualClaim, the post is not reported as spam and the flag is set.
\<close>

theorem veracity_gate:
  "(get_veracity_analysis s ev ptype spam tx lang w = (Inr None, w))
     = (\<not> (ptype = FACTUAL_CLAIM \<and> \<not> spam \<and> ENABLE_VERACITY_CHECK s))
   \<and> snd (get_veracity_analysis s ev ptype spam tx lang w)
       = (if ptype = FACTUAL_CLAIM \<and> \<not> spam \<and> ENABLE_VERACITY_CHECK s
          then snd (analyze_veracity s ev tx lang w) else w)
   \<and> (veracity_analysis (fst (perform_full_analysis s ev pid tx lang w)) \<noteq> None)
       = (post_type (post_analysis (fst (perform_full_analysis s ev pid tx lang w))) = FACTUAL_CLAIM
          \<and> \<not> is_spam (post_analysis (fst (perform_full_analysis s ev pid tx lang w)))
          \<and> ENABLE_VERACITY_CHECK s)"
proof (intro conjI)
  have notnone: "fst (get_veracity_analysis s ev ptype spam tx lang w) \<noteq> Inr None"
    if "should_perform_veracity_check s ptype spam"
    using that unfolding get_veracity_fst
    by (auto simp: ebind_def split: sum.splits prod.splits)
  show "(get_veracity_analysis s ev ptype spam tx lang w = (Inr None, w))
     = (\<not> (ptype = FACTUAL_CLAIM \<and> \<not> spam \<and> ENABLE_VERACITY_CHECK s))"
  proof (cases "should_perform_veracity_check s ptype spam")
    case True
    from notnone[OF True] have "get_veracity_analysis s ev ptype spam tx lang w \<noteq> (Inr None, w)"
      by (metis fst_conv)
    with True show ?thesis by (simp add: should_perform_veracity_check_def)
  next
    case False
    then show ?thesis
      by (simp add: get_veracity_analysis_def should_perform_veracity_check_def)
  qed
  show "snd (get_veracity_analysis s ev ptype spam tx lang w)
       = (if ptype = FACTUAL_CLAIM \<and> \<not> spam \<and> ENABLE_VERACITY_CHECK s
          then snd (analyze_veracity s ev tx lang w) else w)"
    by (cases "analyze_veracity s ev tx lang w")
       (simp add: get_veracity_analysis_def should_perform_veracity_check_def)
  show "(veracity_analysis (fst (perform_full_analysis s ev pid tx lang w)) \<noteq> None)
       = (post_type (post_analysis (fst (perform_full_analysis s ev pid tx lang w))) = FACTUAL_CLAIM
          \<and> \<not> is_spam (post_analysis (fst (perform_full_analysis s ev pid tx lang w)))
          \<and> ENABLE_VERACITY_CHECK s)"
    using failure_or_success[of s ev pid tx lang w]
  proof (elim disjE exE conjE)
    fix e
    assume "fst (perform_full_analysis s ev pid tx lang w) = failure_response ev pid lang e"
    then show ?thesis by (simp add: failure_response_def)
  next
    fix ptype spam va na
    assume "fst (get_veracity_analysis s ev ptype spam tx lang (snd (run_triage s ev tx lang w))) = Inr va"
      and "fst (perform_full_analysis s ev pid tx lang w) =
        build_analysis_response ev pid lang ptype spam va na None"
    then show ?thesis
      using veracity_none_iff[of s ev ptype spam tx lang "snd (run_triage s ev tx lang w)" va]
      by (simp add: build_analysis_response_def should_perform_veracity_check_def)
  qed
qed

section \<open>Symmetry of the label tables\<close>


section \<open>The unconfigured gateway\<close>

lemma unconfigured_down: "\<not> enabled (configured [] v n) \<or> (\<forall>k p. isl (client ev k p))"
  by (simp add: enabled_def configured_def)



text \<open>
  C10: without an API key and with language \<^verbatim>\<open>en\<close>, the classification of every text is
  the first English label "Factual Claim" with confidence \<open>1 / 5\<close>; the full analysis
  reports the post type FactualClaim, not Opinion, and no spam; with the veracity flag set
  it contains a veracity analysis of status Unverifiable.
\<close>

theorem unconfigured_english_default:
  "hd (EN_POST_TYPES settings) = ''Factual Claim''
   \<and> classify_post_type (configured [] v n) ev tx ''en'' w
       = (Inr (JStr ''Factual Claim'', JFloat (Finite (1 / 5)),
               uniform_scores (EN_POST_TYPES settings)), w)
   \<and> post_analysis (fst (perform_full_analysis (configured [] v n) ev pid tx ''en'' w))
       = \<lparr> post_type = FACTUAL_CLAIM, is_spam = False \<rparr>
   \<and> map_option status
        (veracity_analysis (fst (perform_full_analysis (configured [] True n) ev pid tx ''en'' w)))
       = Some UNVERIFIABLE
   \<and> post_type (post_analysis (fst (perform_full_analysis (configured [] v n) ev pid tx ''en'' w)))
       \<noteq> OPINION"
proof (intro conjI)
  show "hd (EN_POST_TYPES settings) = ''Factual Claim''" by (simp add: settings_def)
  have "get_post_type_labels (configured [] v n) ''en'' = EN_POST_TYPES settings"
    by (simp add: get_post_type_labels_def configured_def)
  then show "classify_post_type (configured [] v n) ev tx ''en'' w
       = (Inr (JStr ''Factual Claim'', JFloat (Finite (1 / 5)),
               uniform_scores (EN_POST_TYPES settings)), w)"
    using default_classification_configured[of "[]" v n "''en''"]
    by (simp add: classify_post_type_def enabled_def configured_def)
  show "post_analysis (fst (perform_full_analysis (configured [] v n) ev pid tx ''en'' w))
       = \<lparr> post_type = FACTUAL_CLAIM, is_spam = False \<rparr>"
    by (simp add: pipeline_down[OF unconfigured_down])
  then show "post_type (post_analysis (fst (perform_full_analysis (configured [] v n) ev pid tx ''en'' w)))
       \<noteq> OPINION" by simp
  show "map_option status
        (veracity_analysis (fst (perform_full_analysis (configured [] True n) ev pid tx ''en'' w)))
       = Some UNVERIFIABLE"
    by (simp add: pipeline_down[OF unconfigured_down])
qed

section \<open>The timestamp\<close>

text \<open>
  C9: on both paths the timestamp of the result is the ISO format of the clock reading
  followed by the letter Z. The ISO format of a time in UTC already ends with the offset
  \<^verbatim>\<open>+00:00\<close>, so every timestamp ends with \<^verbatim>\<open>+00:00Z\<close>: it names the time zone twice. The
  health probe at the sample clock reading shows it.
\<close>

theorem timestamp_offset_and_Z:
  "analysis_timestamp (fst (perform_full_analysis s ev pid tx lang w)) = isoformat (utcnow ev) @ ''Z''
   \<and> (\<exists>p. analysis_timestamp (fst (perform_full_analysis s ev pid tx lang w)) = p @ ''+00:00Z'')
   \<and> analysis_timestamp
        (fst (perform_full_analysis (configured [] True True) outage ''health'' ''test'' ''en'' world0))
       = ''2024-01-15T10:30:00+00:00Z''"
proof -
  have a: "analysis_timestamp (fst (perform_full_analysis s ev pid tx lang w)) = isoformat (utcnow ev) @ ''Z''"
    for s ev pid tx lang w
    using failure_or_success[of s ev pid tx lang w]
    by (auto simp: failure_response_def build_analysis_response_def)
  have b: "\<exists>p. isoformat d @ ''Z'' = p @ ''+00:00Z''" for d
    by (simp add: isoformat_def)
  have c: "isoformat (utcnow outage) = ''2024-01-15T10:30:00+00:00''"
    by (simp add: isoformat_def outage_def noon_def digits2_def digits4_def digit_def)
  show ?thesis using a b c by simp
qed

section \<open>Failure of the call\<close>

lemma reported_error_is_failure:
  assumes "processing_error (fst (perform_full_analysis s ev pid tx lang w)) \<noteq> None"
  shows "\<exists>e. fst (perform_full_analysis s ev pid tx lang w) = failure_response ev pid lang e"
  using failure_or_success[of s ev pid tx lang w] assms
  by (auto simp: build_analysis_response_def)

lemma outage_down: "\<not> enabled s \<or> (\<forall>k p. isl (client outage k p))"
  by (simp add: outage_def)

text \<open>
  C1, at a concrete input: with an API key set and every call failing, the three attempts
  of the classification fail and the exception leaves \<open>make_api_call\<close> after sleeps of one
  and two seconds, but the operation returns its default; the full analysis reports no
  processing error, post type FactualClaim, a veracity analysis of status Unverifiable and
  no detected intent.
\<close>

theorem outage_is_absorbed_counterexample:
  "make_api_call outage (build_classification_prompt ''hello'' (EN_POST_TYPES settings) ''en'') world0
     = (Inl (VendorError ''Connection error.''), \<lparr> calls = 3, slept = [1, 2] \<rparr>)
   \<and> enabled (configured ''sk-test'' True True)
   \<and> fst (classify_post_type (configured ''sk-test'' True True) outage ''hello'' ''en'' world0)
       = Inr (JStr ''Factual Claim'', JFloat (Finite (1 / 5)), uniform_scores (EN_POST_TYPES settings))
   \<and> processing_error
        (fst (perform_full_analysis (configured ''sk-test'' True True) outage ''p1'' ''hello'' ''en'' world0))
       = None
   \<and> post_type (post_analysis
        (fst (perform_full_analysis (configured ''sk-test'' True True) outage ''p1'' ''hello'' ''en'' world0)))
       = FACTUAL_CLAIM
   \<and> map_option status (veracity_analysis
        (fst (perform_full_analysis (configured ''sk-test'' True True) outage ''p1'' ''hello'' ''en'' world0)))
       = Some UNVERIFIABLE
   \<and> map_option detected_intents (nuance_analysis
        (fst (perform_full_analysis (configured ''sk-test'' True True) outage ''p1'' ''hello'' ''en'' world0)))
       = Some []"
proof (intro conjI)
  show "make_api_call outage (build_classification_prompt ''hello'' (EN_POST_TYPES settings) ''en'') world0
     = (Inl (VendorError ''Connection error.''), \<lparr> calls = 3, slept = [1, 2] \<rparr>)"
    by (simp add: make_api_call_def outage_def world0_def upt_rec)
  show "enabled (configured ''sk-test'' True True)"
    by (simp add: enabled_def configured_def)
  show "fst (classify_post_type (configured ''sk-test'' True True) outage ''hello'' ''en'' world0)
       = Inr (JStr ''Factual Claim'', JFloat (Finite (1 / 5)), uniform_scores (EN_POST_TYPES settings))"
    unfolding classify_down[OF outage_down] default_classification_configured
    by (simp add: get_post_type_labels_def configured_def)
qed (simp_all add: pipeline_down[OF outage_down])

text \<open>
  C1, as the code has it: when every call fails, each operation of the gateway makes its
  three attempts and then returns the default that it returns without an API key, so the
  full analysis gives the same result as without a key: no processing error, post type
  FactualClaim, no spam. And whenever a result does carry a processing error, it is the
  safe default: post type Opinion, no spam, no veracity analysis, detected intents
  [Informative], and an error text that is not empty.
\<close>

theorem call_failure_absorbed:
  assumes "key \<noteq> []" and "\<And>k p. isl (client ev k p)"
  shows "(\<exists>e. make_api_call ev p w
             = (Inl e, w \<lparr> calls := calls w + 3, slept := slept w @ [1, 2] \<rparr>))
   \<and> fst (classify_post_type (configured key v n) ev tx lang w)
       = get_default_classification (configured key v n) lang
   \<and> fst (analyze_political_tendency (configured key v n) ev tx lang w)
       = Inr (get_default_political_analysis (configured key v n) lang)
   \<and> fst (analyze_intents (configured key v n) ev tx lang w)
       = Inr (get_default_intent_analysis (configured key v n) lang)
   \<and> fst (analyze_veracity (configured key v n) ev tx lang w)
       = Inr (get_default_veracity_analysis tx lang)
   \<and> fst (perform_full_analysis (configured key v n) ev pid tx lang w)
       = fst (perform_full_analysis (configured [] v n) ev pid tx lang w)
   \<and> processing_error (fst (perform_full_analysis (configured key v n) ev pid tx lang w)) = None
   \<and> post_analysis (fst (perform_full_analysis (configured key v n) ev pid tx lang w))
       = \<lparr> post_type = FACTUAL_CLAIM, is_spam = False \<rparr>
   \<and> (processing_error (fst (perform_full_analysis s' ev' pid' tx' lang' w')) \<noteq> None \<longrightarrow>
        post_analysis (fst (perform_full_analysis s' ev' pid' tx' lang' w'))
          = \<lparr> post_type = OPINION, is_spam = False \<rparr>
        \<and> veracity_analysis (fst (perform_full_analysis s' ev' pid' tx' lang' w')) = None
        \<and> map_option detected_intents
             (nuance_analysis (fst (perform_full_analysis s' ev' pid' tx' lang' w')))
            = Some [INFORMATIVE]
        \<and> processing_error (fst (perform_full_analysis s' ev' pid' tx' lang' w')) \<noteq> Some [])"
proof -
  have down: "\<not> enabled (configured key v n) \<or> (\<forall>k p. isl (client ev k p))"
    using assms(2) by simp
  have down0: "\<not> enabled (configured [] v n) \<or> (\<forall>k p. isl (client ev k p))"
    using assms(2) by simp
  have labels: "get_political_labels (configured key v n) lang = get_political_labels (configured [] v n) lang"
    by (simp add: get_political_labels_def configured_def)
  have same: "fst (perform_full_analysis (configured key v n) ev pid tx lang w)
       = fst (perform_full_analysis (configured [] v n) ev pid tx lang w)"
    unfolding pipeline_down[OF down] pipeline_down[OF down0] labels ..
  have fail: "processing_error (fst (perform_full_analysis s' ev' pid' tx' lang' w')) \<noteq> None \<longrightarrow>
        post_analysis (fst (perform_full_analysis s' ev' pid' tx' lang' w'))
          = \<lparr> post_type = OPINION, is_spam = False \<rparr>
        \<and> veracity_analysis (fst (perform_full_analysis s' ev' pid' tx' lang' w')) = None
        \<and> map_option detected_intents
             (nuance_analysis (fst (perform_full_analysis s' ev' pid' tx' lang' w')))
            = Some [INFORMATIVE]
        \<and> processing_error (fst (perform_full_analysis s' ev' pid' tx' lang' w')) \<noteq> Some []"
  proof
    assume "processing_error (fst (perform_full_analysis s' ev' pid' tx' lang' w')) \<noteq> None"
    from reported_error_is_failure[OF this] obtain e where
      "fst (perform_full_analysis s' ev' pid' tx' lang' w') = failure_response ev' pid' lang' e" ..
    then show "post_analysis (fst (perform_full_analysis s' ev' pid' tx' lang' w'))
          = \<lparr> post_type = OPINION, is_spam = False \<rparr>
        \<and> veracity_analysis (fst (perform_full_analysis s' ev' pid' tx' lang' w')) = None
        \<and> map_option detected_intents
             (nuance_analysis (fst (perform_full_analysis s' ev' pid' tx' lang' w')))
            = Some [INFORMATIVE]
        \<and> processing_error (fst (perform_full_analysis s' ev' pid' tx' lang' w')) \<noteq> Some []"
      by (simp add: failure_response_def)
  qed
  have none: "processing_error (fst (perform_full_analysis (configured key v n) ev pid tx lang w)) = None"
    by (simp add: pipeline_down[OF down])
  have post: "post_analysis (fst (perform_full_analysis (configured key v n) ev pid tx lang w))
       = \<lparr> post_type = FACTUAL_CLAIM, is_spam = False \<rparr>"
    by (simp add: pipeline_down[OF down])
  from make_api_call_all_fail[of ev p w, OF assms(2)]
    classify_down[OF down] political_down[OF down] intents_down[OF down] veracity_down[OF down]
    same none post fail
  show ?thesis by blast
qed

theorem call_failure_absorbed_witness:
  "''sk-test'' \<noteq> [] \<and> isl (client outage 0 ''any prompt'')
   \<and> fst (classify_post_type (configured ''sk-test'' True True) outage ''hello'' ''en'' world0)
       = get_default_classification (configured ''sk-test'' True True) ''en''
   \<and> processing_error
        (fst (perform_full_analysis (configured ''sk-test'' True True) outage ''p1'' ''hello'' ''en'' world0))
       = None
   \<and> processing_error
        (fst (perform_full_analysis (configured ''sk-test'' True False) (replying reply_bad_confidence)
                ''p1'' ''hello'' ''en'' world0)) \<noteq> None
   \<and> post_analysis
        (fst (perform_full_analysis (configured ''sk-test'' True False) (replying reply_bad_confidence)
                ''p1'' ''hello'' ''en'' world0))
       = \<lparr> post_type = OPINION, is_spam = False \<rparr>"
proof -
  have key: "''sk-test'' \<noteq> []" by simp
  have down: "\<And>k p. isl (client outage k p)" by (simp add: outage_def)
  have bad: "processing_error
        (fst (perform_full_analysis (configured ''sk-test'' True False) (replying reply_bad_confidence)
                ''p1'' ''hello'' ''en'' world0)) \<noteq> None"
    by (simp add: perform_fst run_triage_fst classify_post_type_def enabled_def configured_def
          settings_def get_post_type_labels_def make_api_call_def upt_rec replying_def world0_def
          ebind_def parse_classification_response_def except_decode_def json_loads_def
          sample_loads_def reply_bad_confidence_def reply_german_spam_def quoted_def get_or_def py_get_def first_label_def
          py_contains_def py_setitem_def detect_spam_def py_gt_def failure_response_def)
  show ?thesis
    using call_failure_absorbed[where key = "''sk-test''" and ev = outage and p = "''any prompt''"
        and w = world0 and v = True and n = True and tx = "''hello''" and lang = "''en''"
        and pid = "''p1''" and s' = "configured ''sk-test'' True False"
        and ev' = "replying reply_bad_confidence" and pid' = "''p1''" and tx' = "''hello''"
        and lang' = "''en''" and w' = world0, OF key down]
      bad down[of 0 "''any prompt''"] key
    by blast
qed

section \<open>The gateway when a reply arrives\<close>

text \<open>
  A reply ends the loop at the first attempt. What the operation returns is then what
  the parser makes of the reply, or the default when the parser raises.
\<close>

lemma make_api_call_reply:
  assumes "client ev (calls w) p = Inr t"
  shows "make_api_call ev p w = (Inr (Some t), w \<lparr> calls := Suc (calls w) \<rparr>)"
  using assms by (simp add: make_api_call_def upt_rec)

lemma classify_reply:
  assumes "enabled s" and "client ev (calls w) (build_classification_prompt tx (get_post_type_labels s lang) lang) = Inr t"
  shows "fst (classify_post_type s ev tx lang w) =
     (case parse_classification_response ev (Some t) (get_post_type_labels s lang) of
        Inr r \<Rightarrow> Inr r | Inl e \<Rightarrow> get_default_classification s lang)"
  using assms(1) make_api_call_reply[OF assms(2)]
  by (simp add: classify_post_type_def ebind_def split: sum.splits)

lemma political_reply:
  assumes "enabled s" and "client ev (calls w) (build_political_analysis_prompt tx (get_political_labels s lang) lang) = Inr t"
  shows "fst (analyze_political_tendency s ev tx lang w) =
     (case parse_political_response ev (Some t) (get_political_labels s lang) of
        Inr r \<Rightarrow> Inr r | Inl e \<Rightarrow> Inr (get_default_political_analysis s lang))"
  using assms(1) make_api_call_reply[OF assms(2)]
  by (simp add: analyze_political_tendency_def ebind_def split: sum.splits)

lemma intents_reply:
  assumes "enabled s" and "client ev (calls w) (build_intent_analysis_prompt tx (get_intent_labels s lang) lang) = Inr t"
  shows "fst (analyze_intents s ev tx lang w) =
     (case parse_intent_response ev (Some t) (get_intent_labels s lang) of
        Inr r \<Rightarrow> Inr r | Inl e \<Rightarrow> Inr (get_default_intent_analysis s lang))"
  using assms(1) make_api_call_reply[OF assms(2)]
  by (simp add: analyze_intents_def ebind_def split: sum.splits)

lemma veracity_reply:
  assumes "enabled s" and "client ev (calls w) (build_veracity_prompt tx lang) = Inr t"
  shows "fst (analyze_veracity s ev tx lang w) =
     (case parse_veracity_response ev (Some t) of
        Inr r \<Rightarrow> Inr r | Inl e \<Rightarrow> Inr (get_default_veracity_analysis tx lang))"
  using assms(1) make_api_call_reply[OF assms(2)]
  by (simp add: analyze_veracity_def ebind_def split: sum.splits)

lemma classify_never_raises:
  "\<exists>r. fst (classify_post_type (configured key v n) ev tx lang w) = Inr r"
  by (cases "make_api_call ev (build_classification_prompt tx
                (get_post_type_labels (configured key v n) lang) lang) w")
     (auto simp: classify_post_type_def default_classification_configured split: sum.splits)




lemma fill_missing_empty:
  assumes "distinct labels"
  shows "fill_missing labels (JObj []) = Inr (JObj (map (\<lambda>l. (l, JFloat (Finite 0))) labels))"
proof -
  have "\<And>d. distinct (map fst d @ ls) \<Longrightarrow>
      fill_missing ls (JObj d) = Inr (JObj (d @ map (\<lambda>l. (l, JFloat (Finite 0))) ls))" for ls
  proof (induction ls)
    case Nil
    then show ?case by simp
  next
    case (Cons a ls)
    have notin: "a \<notin> fst ` set d" using Cons.prems by auto
    then have upd: "AList.update a c d = d @ [(a, c)]" for c :: json
      by (induction d) auto
    have "distinct (map fst (d @ [(a, JFloat (Finite 0))]) @ ls)" using Cons.prems by auto
    from Cons.IH[OF this] notin show ?case
      by (simp add: ebind_def py_contains_def py_setitem_def upd)
  qed
  from this[of "[]" labels] assms show ?thesis by simp
qed



lemma sample_loads_simps:
  "sample_loads ''not json'' = Inl JSONDecodeError"
  "sample_loads ''{}'' = Inr (JObj [])"
  "sample_loads reply_german_spam =
     Inr (JObj [(''primary_label'', JStr ''Werbung / Spam''),
                (''confidence'', JFloat (Finite (3 / 4)))])"
  "sample_loads reply_bad_confidence = Inr (JObj [(''confidence'', JStr ''high'')])"
  "sample_loads reply_two_informative =
     Inr (JObj [(''scores'',
                 JObj [(''Informative'', JFloat (Finite (1 / 2))),
                       (''Informativ'', JFloat (Finite (1 / 2)))])])"
  by (simp_all add: sample_loads_def reply_german_spam_def reply_bad_confidence_def
        reply_two_informative_def quoted_def)

lemma replying_simps:
  "client (replying t) k p = Inr t" "loads (replying t) = sample_loads"
  "exn_text (replying t) = sample_text" "utcnow (replying t) = noon"
  by (simp_all add: replying_def)

lemma enabled_test_key: "enabled (configured ''sk-test'' v n)"
  by (simp add: enabled_def configured_def)

section \<open>Failure of the parse\<close>




section \<open>Spam\<close>

lemma german_spam_triage:
  "fst (run_triage (configured ''sk-test'' True True) (replying reply_german_spam)
            ''hello'' ''en'' world0) = Inr (PROMOTION, True)"
  unfolding run_triage_fst classify_reply[OF enabled_test_key replying_simps(1)]
  by (simp add: parse_classification_response_def json_loads_def replying_simps
        sample_loads_simps except_decode_def ebind_def get_or_def py_get_def first_label_def
        get_post_type_labels_def configured_def settings_def py_contains_def py_setitem_def
        detect_spam_def SPAM_LABELS_def py_gt_def map_to_post_type_def mapping_get_def
        format_2f_def Meinungsaeusserung_def Persoenliche_Mitteilung_def)

text \<open>
  C3, at a concrete input: the request is in English and the model answers with the
  German label "Werbung / Spam" and confidence 0.75. The label is none of the English
  post types, and the post is marked as spam.
\<close>

theorem other_language_spam_counterexample:
  "fst (classify_post_type (configured ''sk-test'' True True) (replying reply_german_spam)
          ''hello'' ''en'' world0)
     = Inr (JStr ''Werbung / Spam'', JFloat (Finite (3 / 4)),
            JObj (map (\<lambda>l. (l, JFloat (Finite 0))) (EN_POST_TYPES settings)))
   \<and> ''Werbung / Spam'' \<notin> set (get_post_type_labels (configured ''sk-test'' True True) ''en'')
   \<and> fst (run_triage (configured ''sk-test'' True True) (replying reply_german_spam)
            ''hello'' ''en'' world0)
       = Inr (PROMOTION, True)
   \<and> is_spam (post_analysis (fst (perform_full_analysis (configured ''sk-test'' True True)
        (replying reply_german_spam) ''p1'' ''hello'' ''en'' world0)))"
proof -
  have labels: "get_post_type_labels (configured ''sk-test'' True True) ''en'' = EN_POST_TYPES settings"
    by (simp add: get_post_type_labels_def configured_def)
  have dis: "distinct (EN_POST_TYPES settings)" by (simp add: settings_def)
  have first: "first_label (EN_POST_TYPES settings) = Inr (JStr ''Factual Claim'')"
    by (simp add: first_label_def settings_def)
  have c: "fst (classify_post_type (configured ''sk-test'' True True) (replying reply_german_spam)
          ''hello'' ''en'' world0)
     = Inr (JStr ''Werbung / Spam'', JFloat (Finite (3 / 4)),
            JObj (map (\<lambda>l. (l, JFloat (Finite 0))) (EN_POST_TYPES settings)))"
    unfolding classify_reply[OF enabled_test_key replying_simps(1)] labels
    by (simp add: parse_classification_response_def json_loads_def replying_simps
          sample_loads_simps except_decode_def ebind_def get_or_def py_get_def first
          fill_missing_empty[OF dis])
  have t: "fst (run_triage (configured ''sk-test'' True True) (replying reply_german_spam)
            ''hello'' ''en'' world0) = Inr (PROMOTION, True)"
    unfolding run_triage_fst c
    by (simp add: ebind_def detect_spam_def SPAM_LABELS_def py_gt_def configured_def settings_def
          map_to_post_type_def mapping_get_def format_2f_def Meinungsaeusserung_def
          Persoenliche_Mitteilung_def)
  have n: "''Werbung / Spam'' \<notin> set (get_post_type_labels (configured ''sk-test'' True True) ''en'')"
    by (simp add: labels settings_def)
  have p: "is_spam (post_analysis (fst (perform_full_analysis (configured ''sk-test'' True True)
        (replying reply_german_spam) ''p1'' ''hello'' ''en'' world0)))"
    unfolding perform_fst t
    by (simp add: get_veracity_fst get_nuance_fst should_perform_veracity_check_def
          build_analysis_response_def)
  from c n t p show ?thesis by blast
qed

text \<open>
  C3, as the code has it: a post is spam if and only if its primary label is "Promotion"
  or "Werbung / Spam", whatever the language of the request, and the confidence is
  strictly greater than 0.7; a confidence of exactly 0.7 gives no spam. This holds for
  every outcome of the triage, for the label and the confidence that the classification
  returned.
\<close>

theorem spam_rule:
  "detect_spam (configured key v n) label (JFloat (Finite c))
     = Inr ((label = JStr ''Promotion'' \<or> label = JStr ''Werbung / Spam'') \<and> c > 7 / 10)
   \<and> detect_spam (configured key v n) label (JFloat (Finite (7 / 10))) = Inr False
   \<and> (fst (run_triage (configured key v n) ev tx lang w) = Inr (ptype, spam) \<longrightarrow>
        (\<exists>label conf sc.
           fst (classify_post_type (configured key v n) ev tx lang w) = Inr (label, conf, sc)
           \<and> spam = ((label = JStr ''Promotion'' \<or> label = JStr ''Werbung / Spam'')
                     \<and> py_gt conf (7 / 10) = Inr True)))"
proof (intro conjI impI)
  show "detect_spam (configured key v n) label (JFloat (Finite c))
     = Inr ((label = JStr ''Promotion'' \<or> label = JStr ''Werbung / Spam'') \<and> c > 7 / 10)"
    by (auto simp: detect_spam_def SPAM_LABELS_def py_gt_def ebind_def configured_def settings_def)
  show "detect_spam (configured key v n) label (JFloat (Finite (7 / 10))) = Inr False"
    by (simp add: detect_spam_def SPAM_LABELS_def py_gt_def ebind_def configured_def settings_def)
  assume t: "fst (run_triage (configured key v n) ev tx lang w) = Inr (ptype, spam)"
  obtain label conf sc where
    c: "fst (classify_post_type (configured key v n) ev tx lang w) = Inr (label, conf, sc)"
    using classify_never_raises[of key v n ev tx lang w] by (metis prod_cases3)
  have thr: "SPAM_CONFIDENCE_THRESHOLD (configured key v n) = 7 / 10"
    by (simp add: configured_def settings_def)
  from t have "spam = ((label = JStr ''Promotion'' \<or> label = JStr ''Werbung / Spam'')
                     \<and> py_gt conf (7 / 10) = Inr True)"
    unfolding run_triage_fst c
    by (auto simp: ebind_def detect_spam_def SPAM_LABELS_def thr split: sum.splits)
  with c show "\<exists>label conf sc.
           fst (classify_post_type (configured key v n) ev tx lang w) = Inr (label, conf, sc)
           \<and> spam = ((label = JStr ''Promotion'' \<or> label = JStr ''Werbung / Spam'')
                     \<and> py_gt conf (7 / 10) = Inr True)" by blast
qed

theorem spam_rule_witness:
  "fst (run_triage (configured ''sk-test'' True True) (replying reply_german_spam)
          ''hello'' ''en'' world0) = Inr (PROMOTION, True)
   \<and> (\<exists>label conf sc.
         fst (classify_post_type (configured ''sk-test'' True True) (replying reply_german_spam)
                ''hello'' ''en'' world0) = Inr (label, conf, sc)
         \<and> True = ((label = JStr ''Promotion'' \<or> label = JStr ''Werbung / Spam'')
                    \<and> py_gt conf (7 / 10) = Inr True))"
  using spam_rule[where key = "''sk-test''" and v = True and n = True
      and ev = "replying reply_german_spam" and tx = "''hello''" and lang = "''en''"
      and w = world0 and ptype = PROMOTION and spam = True]
    german_spam_triage
  by blast

section \<open>Nuance analysis and detected intents\<close>

lemma above_threshold_numeric:
  "numeric_items kvs = Some nvs \<Longrightarrow>
     above_threshold t kvs = Inr (map fst (filter (\<lambda>kx. float_gt (snd kx) (Finite t)) nvs))"
proof (induction kvs arbitrary: nvs)
  case Nil
  then show ?case by simp
next
  case (Cons kv kvs)
  obtain k v where kv: "kv = (k, v)" by (cases kv)
  from Cons.prems kv obtain x r where
    x: "to_num v = Some x" and r: "numeric_items kvs = Some r" and nvs: "nvs = (k, x) # r"
    by (auto split: option.splits)
  from Cons.IH[OF r] show ?case
    by (simp add: kv nvs x py_gt_def ebind_def)
qed

lemma above_threshold_subseq:
  "above_threshold t kvs = Inr ks \<Longrightarrow> distinct (map fst kvs) \<Longrightarrow> distinct ks \<and> set ks \<subseteq> fst ` set kvs"
proof (induction kvs arbitrary: ks)
  case Nil
  then show ?case by simp
next
  case (Cons kv kvs)
  obtain k v where kv: "kv = (k, v)" by (cases kv)
  from Cons.prems(1) kv obtain b r where
    r: "above_threshold t kvs = Inr r" and ks: "ks = (if b then k # r else r)"
    by (auto simp: ebind_def split: sum.splits)
  from Cons.prems(2) kv have d: "distinct (map fst kvs)" and nk: "k \<notin> fst ` set kvs" by auto
  from Cons.IH[OF r d] nk show ?case by (auto simp: ks kv)
qed

lemma map_to_intent_total: "\<exists>i. map_to_intent (JStr k) lang = Inr i"
  by (simp add: map_to_intent_def mapping_get_def)

lemma map_intents_map:
  "\<exists>ins. map_intents ks lang = Inr ins \<and> map Inr ins = map (\<lambda>k. map_to_intent (JStr k) lang) ks"
proof (induction ks)
  case Nil
  then show ?case by simp
next
  case (Cons k ks)
  then obtain ins where "map_intents ks lang = Inr ins"
      "map Inr ins = map (\<lambda>k. map_to_intent (JStr k) lang) ks" by blast
  moreover obtain i where "map_to_intent (JStr k) lang = Inr i"
    using map_to_intent_total by blast
  ultimately show ?case by (simp add: ebind_def)
qed

lemma map_to_intent_inj_en:
  "inj_on (\<lambda>k. map_to_intent (JStr k) lang) (set (EN_INTENT_LABELS settings))"
  by (simp add: inj_on_def settings_def map_to_intent_def mapping_get_def Ueberzeugend_def)

lemma map_to_intent_inj_de:
  "inj_on (\<lambda>k. map_to_intent (JStr k) lang) (set (DE_INTENT_LABELS settings))"
  by (simp add: inj_on_def settings_def map_to_intent_def mapping_get_def Ueberzeugend_def)

lemma two_informative_triage:
  "fst (run_triage (configured ''sk-test'' v n) (replying reply_two_informative) ''hello'' ''en'' w)
     = Inr (FACTUAL_CLAIM, False)"
  unfolding run_triage_fst classify_reply[OF enabled_test_key replying_simps(1)]
  by (simp add: parse_classification_response_def json_loads_def replying_simps
        sample_loads_simps except_decode_def ebind_def get_or_def py_get_def first_label_def
        get_post_type_labels_def configured_def settings_def py_contains_def py_setitem_def
        detect_spam_def SPAM_LABELS_def py_gt_def map_to_post_type_def mapping_get_def
        format_2f_def)

lemma two_informative_veracity:
  "fst (get_veracity_analysis (configured ''sk-test'' True n) (replying reply_two_informative)
          FACTUAL_CLAIM False ''hello'' ''en'' w)
     = Inr (Some \<lparr> status = UNVERIFIABLE, justification = ''No analysis available'',
                   verification_method = ''No method specified'', sources = [] \<rparr>)"
  unfolding get_veracity_fst veracity_reply[OF enabled_test_key replying_simps(1)]
  by (simp add: parse_veracity_response_def json_loads_def replying_simps sample_loads_simps
        except_decode_def ebind_def py_get_def should_perform_veracity_check_def configured_def
        map_veracity_status_def mapping_get_def new_VeracityAnalysis_def)

lemma round4_half: "round4 (JFloat (Finite (1 / 2))) = Inr (JFloat (Finite (1 / 2)))"
  by (simp add: round4_def round_half_even_def)

lemma round4_zero: "round4 (JFloat (Finite 0)) = Inr (JFloat (Finite 0))"
  by (simp add: round4_def round_half_even_def)

lemma two_informative_nuance:
  "map_sum id (map_option detected_intents)
     (fst (get_nuance_analysis (configured ''sk-test'' v True) (replying reply_two_informative)
            False ''hello'' ''en'' w))
     = Inr (Some [INFORMATIVE, INFORMATIVE])"
  unfolding get_nuance_fst political_reply[OF enabled_test_key replying_simps(1)]
    intents_reply[OF enabled_test_key replying_simps(1)]
  by (simp add: parse_political_response_def parse_intent_response_def json_loads_def
        replying_simps sample_loads_simps except_decode_def ebind_def py_get_def
        get_political_labels_def get_intent_labels_def configured_def settings_def
        py_contains_def py_setitem_def build_political_analysis_def max_key_def
        map_to_political_tendency_def mapping_get_def round4_half round4_zero
        build_intent_list_def py_gt_def map_to_intent_def Ueberzeugend_def)

lemma two_informative_run:
  "processing_error (fst (perform_full_analysis (configured ''sk-test'' True True)
        (replying reply_two_informative) ''p1'' ''hello'' ''en'' world0)) = None
   \<and> map_option detected_intents (nuance_analysis
        (fst (perform_full_analysis (configured ''sk-test'' True True)
               (replying reply_two_informative) ''p1'' ''hello'' ''en'' world0)))
       = Some [INFORMATIVE, INFORMATIVE]
   \<and> \<not> is_spam (post_analysis (fst (perform_full_analysis (configured ''sk-test'' True True)
        (replying reply_two_informative) ''p1'' ''hello'' ''en'' world0)))"
  unfolding perform_fst two_informative_triage
  using two_informative_nuance[of True "snd (get_veracity_analysis (configured ''sk-test'' True True)
          (replying reply_two_informative) FACTUAL_CLAIM False ''hello'' ''en''
          (snd (run_triage (configured ''sk-test'' True True) (replying reply_two_informative)
                  ''hello'' ''en'' world0)))"]
  by (auto simp add: two_informative_veracity build_analysis_response_def split: sum.splits)

lemma bad_confidence_run:
  "fst (perform_full_analysis (configured ''sk-test'' v n) (replying reply_bad_confidence)
          ''p1'' ''hello'' ''en'' world0)
     = failure_response (replying reply_bad_confidence) ''p1'' ''en'' TypeError"
  unfolding perform_fst run_triage_fst classify_reply[OF enabled_test_key replying_simps(1)]
  by (simp add: parse_classification_response_def json_loads_def replying_simps
        sample_loads_simps except_decode_def ebind_def get_or_def py_get_def first_label_def
        get_post_type_labels_def configured_def settings_def py_contains_def py_setitem_def
        detect_spam_def py_gt_def)

lemma sample_scores_intents:
  "build_intent_list (configured key v n) (JObj sample_scores) lang = Inr [INFORMATIVE, SATIRICAL]"
  by (simp add: build_intent_list_def sample_scores_def configured_def settings_def py_gt_def
        ebind_def map_to_intent_def mapping_get_def Ueberzeugend_def)

text \<open>
  C4, at a concrete input: the nuance flag is off and the model answers the
  classification with a confidence that is a string. The comparison with the threshold
  raises, the orchestrator answers with its safe default, and that default contains a
  nuance analysis.
\<close>

theorem failure_path_nuance_counterexample:
  "\<not> ENABLE_NUANCE_ANALYSIS (configured ''sk-test'' True False)
   \<and> fst (perform_full_analysis (configured ''sk-test'' True False) (replying reply_bad_confidence)
            ''p1'' ''hello'' ''en'' world0)
       = failure_response (replying reply_bad_confidence) ''p1'' ''en'' TypeError
   \<and> nuance_analysis (fst (perform_full_analysis (configured ''sk-test'' True False)
        (replying reply_bad_confidence) ''p1'' ''hello'' ''en'' world0))
       = Some \<lparr> political_tendency =
                  \<lparr> primary = NEUTRAL, scores = [(''Neutral'', JFloat (Finite 1))] \<rparr>,
                detected_intents = [INFORMATIVE] \<rparr>
   \<and> \<not> is_spam (post_analysis (fst (perform_full_analysis (configured ''sk-test'' True False)
        (replying reply_bad_confidence) ''p1'' ''hello'' ''en'' world0)))"
  by (simp add: bad_confidence_run failure_response_def) (simp add: configured_def)

text \<open>
  C4, as the code has it: in a result without processing error the nuance analysis is
  present if and only if the post is not spam and the nuance flag is set, and its
  detected intents are what \<open>build_intent_list\<close> makes of the scores that
  \<open>analyze_intents\<close> returned; in a result with a processing error the nuance analysis is
  always present, with detected intents [Informative]. On numeric scores
  \<open>build_intent_list\<close> returns, in the order of the dict, the intents of exactly the
  labels whose score is strictly greater than 0.3; a score of exactly 0.3 is left out,
  and no detected intent at all is a regular outcome.
\<close>

theorem nuance_gate:
  assumes "r = fst (perform_full_analysis s ev pid tx lang w)"
  shows "(processing_error r = None \<longrightarrow>
           (nuance_analysis r \<noteq> None) = (\<not> is_spam (post_analysis r) \<and> ENABLE_NUANCE_ANALYSIS s))
   \<and> (processing_error r = None \<and> nuance_analysis r = Some na \<longrightarrow>
        (\<exists>w' sc. fst (analyze_intents s ev tx lang w') = Inr sc
                 \<and> build_intent_list s sc lang = Inr (detected_intents na)))
   \<and> (processing_error r \<noteq> None \<longrightarrow>
        map_option detected_intents (nuance_analysis r) = Some [INFORMATIVE])
   \<and> (numeric_items kvs = Some nvs \<longrightarrow>
        (\<exists>ins. build_intent_list (configured key v n) (JObj kvs) lang' = Inr ins
               \<and> map Inr ins
                   = map (\<lambda>kx. map_to_intent (JStr (fst kx)) lang')
                       (filter (\<lambda>kx. float_gt (snd kx) (Finite (3 / 10))) nvs)))
   \<and> build_intent_list (configured key v n) (JObj [(k, JFloat (Finite (3 / 10)))]) lang' = Inr []
   \<and> build_intent_list (configured key v n) (JObj [(k, JFloat (Finite (1 / 6)))]) lang' = Inr []"
proof (intro conjI impI)
  show "build_intent_list (configured key v n) (JObj [(k, JFloat (Finite (3 / 10)))]) lang' = Inr []"
    by (simp add: build_intent_list_def configured_def settings_def py_gt_def ebind_def)
  show "build_intent_list (configured key v n) (JObj [(k, JFloat (Finite (1 / 6)))]) lang' = Inr []"
    by (simp add: build_intent_list_def configured_def settings_def py_gt_def ebind_def)
next
  assume "processing_error r \<noteq> None"
  with assms obtain e where "r = failure_response ev pid lang e"
    using reported_error_is_failure[of s ev pid tx lang w] by auto
  then show "map_option detected_intents (nuance_analysis r) = Some [INFORMATIVE]"
    by (simp add: failure_response_def)
next
  assume ok: "processing_error r = None"
  from failure_or_success[of s ev pid tx lang w] assms ok
  obtain ptype spam va na' where
    n: "fst (get_nuance_analysis s ev spam tx lang
             (snd (get_veracity_analysis s ev ptype spam tx lang
                     (snd (run_triage s ev tx lang w))))) = Inr na'"
    and r: "r = build_analysis_response ev pid lang ptype spam va na' None"
    by (auto simp: failure_response_def)
  from nuance_none_iff[OF n] r
  show "(nuance_analysis r \<noteq> None) = (\<not> is_spam (post_analysis r) \<and> ENABLE_NUANCE_ANALYSIS s)"
    by (simp add: build_analysis_response_def)
next
  assume "processing_error r = None \<and> nuance_analysis r = Some na"
  then have ok: "processing_error r = None" and na: "nuance_analysis r = Some na" by simp_all
  from failure_or_success[of s ev pid tx lang w] assms ok
  obtain ptype spam va na' where
    n: "fst (get_nuance_analysis s ev spam tx lang
             (snd (get_veracity_analysis s ev ptype spam tx lang
                     (snd (run_triage s ev tx lang w))))) = Inr na'"
    and r: "r = build_analysis_response ev pid lang ptype spam va na' None"
    by (auto simp: failure_response_def)
  from r na have "na' = Some na" by (simp add: build_analysis_response_def)
  with n show "\<exists>w' sc. fst (analyze_intents s ev tx lang w') = Inr sc
                 \<and> build_intent_list s sc lang = Inr (detected_intents na)"
    unfolding get_nuance_fst
    by (fastforce simp: ebind_def split: if_splits sum.splits)
next
  assume num: "numeric_items kvs = Some nvs"
  have thr: "INTENT_CONFIDENCE_THRESHOLD (configured key v n) = 3 / 10"
    by (simp add: configured_def settings_def)
  from map_intents_map[of "map fst (filter (\<lambda>kx. float_gt (snd kx) (Finite (3 / 10))) nvs)" lang']
  show "\<exists>ins. build_intent_list (configured key v n) (JObj kvs) lang' = Inr ins
               \<and> map Inr ins
                   = map (\<lambda>kx. map_to_intent (JStr (fst kx)) lang')
                       (filter (\<lambda>kx. float_gt (snd kx) (Finite (3 / 10))) nvs)"
    by (auto simp: build_intent_list_def thr above_threshold_numeric[OF num] ebind_def comp_def)
qed

theorem nuance_gate_witness:
  "processing_error (fst (perform_full_analysis (configured ''sk-test'' True True)
        (replying reply_two_informative) ''p1'' ''hello'' ''en'' world0)) = None
   \<and> (nuance_analysis (fst (perform_full_analysis (configured ''sk-test'' True True)
        (replying reply_two_informative) ''p1'' ''hello'' ''en'' world0)) \<noteq> None)
       = (\<not> is_spam (post_analysis (fst (perform_full_analysis (configured ''sk-test'' True True)
              (replying reply_two_informative) ''p1'' ''hello'' ''en'' world0)))
          \<and> ENABLE_NUANCE_ANALYSIS (configured ''sk-test'' True True))
   \<and> (\<exists>na w' sc.
         nuance_analysis (fst (perform_full_analysis (configured ''sk-test'' True True)
           (replying reply_two_informative) ''p1'' ''hello'' ''en'' world0)) = Some na
         \<and> fst (analyze_intents (configured ''sk-test'' True True)
                  (replying reply_two_informative) ''hello'' ''en'' w') = Inr sc
         \<and> build_intent_list (configured ''sk-test'' True True) sc ''en''
             = Inr (detected_intents na))
   \<and> processing_error (fst (perform_full_analysis (configured ''sk-test'' True False)
        (replying reply_bad_confidence) ''p1'' ''hello'' ''en'' world0)) \<noteq> None
   \<and> map_option detected_intents (nuance_analysis
        (fst (perform_full_analysis (configured ''sk-test'' True False)
               (replying reply_bad_confidence) ''p1'' ''hello'' ''en'' world0)))
       = Some [INFORMATIVE]
   \<and> numeric_items sample_scores
       = Some [(''Informative'', Finite (1 / 2)), (''Satirical'', Finite 1),
               (''Commercial'', Finite (3 / 10))]
   \<and> build_intent_list (configured ''sk-test'' True True) (JObj sample_scores) ''en''
       = Inr [INFORMATIVE, SATIRICAL]"
proof -
  let ?ra = "fst (perform_full_analysis (configured ''sk-test'' True True)
        (replying reply_two_informative) ''p1'' ''hello'' ''en'' world0)"
  let ?rb = "fst (perform_full_analysis (configured ''sk-test'' True False)
        (replying reply_bad_confidence) ''p1'' ''hello'' ''en'' world0)"
  have a: "processing_error ?ra = None" using two_informative_run by blast
  obtain na where na: "nuance_analysis ?ra = Some na"
    using two_informative_run by (cases "nuance_analysis ?ra") auto
  have b: "processing_error ?rb \<noteq> None"
    by (simp add: bad_confidence_run failure_response_def)
  have num: "numeric_items sample_scores
       = Some [(''Informative'', Finite (1 / 2)), (''Satirical'', Finite 1),
               (''Commercial'', Finite (3 / 10))]"
    by (simp add: sample_scores_def)
  note ga = nuance_gate[where r = ?ra and s = "configured ''sk-test'' True True"
      and ev = "replying reply_two_informative" and pid = "''p1''" and tx = "''hello''"
      and lang = "''en''" and w = world0 and na = na and kvs = sample_scores
      and nvs = "[(''Informative'', Finite (1 / 2)), (''Satirical'', Finite 1),
               (''Commercial'', Finite (3 / 10))]"
      and key = "''sk-test''" and v = True and n = True and lang' = "''en''", OF refl]
  note gb = nuance_gate[where r = ?rb and s = "configured ''sk-test'' True False"
      and ev = "replying reply_bad_confidence" and pid = "''p1''" and tx = "''hello''"
      and lang = "''en''" and w = world0, OF refl]
  from ga a na have
    "(nuance_analysis ?ra \<noteq> None)
       = (\<not> is_spam (post_analysis ?ra) \<and> ENABLE_NUANCE_ANALYSIS (configured ''sk-test'' True True))"
    "\<exists>w' sc. fst (analyze_intents (configured ''sk-test'' True True)
                  (replying reply_two_informative) ''hello'' ''en'' w') = Inr sc
         \<and> build_intent_list (configured ''sk-test'' True True) sc ''en''
             = Inr (detected_intents na)"
    by blast+
  moreover from gb b have "map_option detected_intents (nuance_analysis ?rb) = Some [INFORMATIVE]"
    by blast
  ultimately show ?thesis
    using a b na num sample_scores_intents[of "''sk-test''" True True "''en''"] by blast
qed

text \<open>
  C7, at a concrete input: the model answers with scores for "Informative" and
  "Informativ", both 0.5. Both labels map to the same intent, and the result lists it
  twice.
\<close>

theorem repeated_intent_counterexample:
  "sample_loads reply_two_informative
     = Inr (JObj [(''scores'',
                   JObj [(''Informative'', JFloat (Finite (1 / 2))),
                         (''Informativ'', JFloat (Finite (1 / 2)))])])
   \<and> processing_error (fst (perform_full_analysis (configured ''sk-test'' True True)
        (replying reply_two_informative) ''p1'' ''hello'' ''en'' world0)) = None
   \<and> map_option detected_intents (nuance_analysis
        (fst (perform_full_analysis (configured ''sk-test'' True True)
               (replying reply_two_informative) ''p1'' ''hello'' ''en'' world0)))
       = Some [INFORMATIVE, INFORMATIVE]
   \<and> \<not> distinct [INFORMATIVE, INFORMATIVE]"
  using two_informative_run by (simp add: sample_loads_simps)

text \<open>
  C7, as the code has it: when the labels whose score exceeds the threshold all belong to
  the intent labels of one language, English or German, the detected intents contain no
  intent twice (the keys of a dict are distinct, and within one language the labels map
  to different intents).
\<close>

theorem intents_distinct_within_one_language:
  assumes "distinct (map fst kvs)"
    and "above_threshold (INTENT_CONFIDENCE_THRESHOLD s) kvs = Inr ks"
    and "set ks \<subseteq> set (EN_INTENT_LABELS settings) \<or> set ks \<subseteq> set (DE_INTENT_LABELS settings)"
    and "build_intent_list s (JObj kvs) lang = Inr ins"
  shows "distinct ins"
proof -
  from assms(2,4) have m: "map_intents ks lang = Inr ins"
    by (simp add: build_intent_list_def ebind_def)
  from map_intents_map[of ks lang] m
  have eq: "map Inr ins = map (\<lambda>k. map_to_intent (JStr k) lang) ks" by auto
  from above_threshold_subseq[OF assms(2,1)] have d: "distinct ks" by simp
  from assms(3) have "inj_on (\<lambda>k. map_to_intent (JStr k) lang) (set ks)"
    using map_to_intent_inj_en[of lang] map_to_intent_inj_de[of lang]
    by (auto intro: inj_on_subset)
  with d have "distinct (map (\<lambda>k. map_to_intent (JStr k) lang) ks)"
    by (simp add: distinct_map)
  with eq have "distinct (map Inr ins :: (py_error + Intent) list)" by simp
  then show ?thesis by (simp add: distinct_map)
qed

theorem intents_distinct_within_one_language_witness:
  "distinct (map fst sample_scores)
   \<and> above_threshold (INTENT_CONFIDENCE_THRESHOLD (configured ''sk-test'' True True)) sample_scores
       = Inr [''Informative'', ''Satirical'']
   \<and> (set [''Informative'', ''Satirical''] \<subseteq> set (EN_INTENT_LABELS settings)
       \<or> set [''Informative'', ''Satirical''] \<subseteq> set (DE_INTENT_LABELS settings))
   \<and> build_intent_list (configured ''sk-test'' True True) (JObj sample_scores) ''en''
       = Inr [INFORMATIVE, SATIRICAL]
   \<and> distinct [INFORMATIVE, SATIRICAL]"
proof -
  have h1: "distinct (map fst sample_scores)" by (simp add: sample_scores_def)
  have h2: "above_threshold (INTENT_CONFIDENCE_THRESHOLD (configured ''sk-test'' True True))
              sample_scores = Inr [''Informative'', ''Satirical'']"
    by (simp add: sample_scores_def configured_def settings_def py_gt_def ebind_def)
  have h3: "set [''Informative'', ''Satirical''] \<subseteq> set (EN_INTENT_LABELS settings)
       \<or> set [''Informative'', ''Satirical''] \<subseteq> set (DE_INTENT_LABELS settings)"
    by (simp add: settings_def)
  have h4: "build_intent_list (configured ''sk-test'' True True) (JObj sample_scores) ''en''
       = Inr [INFORMATIVE, SATIRICAL]" by (rule sample_scores_intents)
  from intents_distinct_within_one_language[OF h1 h2 h3 h4] h1 h2 h3 h4
  show ?thesis by blast
qed

end
